theory Spec2Isabelle
  imports Main "HOL-Library.Word"
begin

section \<open>Go values and the standard-library formatters the program calls\<close>

text \<open>
  The repository holds three programs of package \<open>main\<close>: the console printer
  (\<open>src/main.go\<close>) and two versions of the styled status bar
  (\<open>src/unnamed/part_000\<close> and \<open>src/unnamed/part_001\<close>). Definitions taken from the
  status bars carry the suffix \<open>_000\<close> or \<open>_001\<close>; code that the files share word for
  word is embedded once.

  Go's \<open>uint64\<close> is a 64-bit word. A \<open>float64\<close> is kept exactly: a finite value is
  \<open>\<plusminus> m / 2 ^ e\<close> for naturals \<open>m\<close> and \<open>e\<close> (every finite double has this form), with
  the sign bit apart so that negative zero is still a value.
\<close>

type_synonym uint64 = "64 word"

datatype float64 = Finite bool nat nat | Infinite bool | NaN

abbreviation newline :: string where
  "newline \<equiv> [CHR 0x0A]"

abbreviation tab :: string where
  "tab \<equiv> [CHR 0x09]"

definition digit :: "nat \<Rightarrow> char" where
  "digit d = ''0123456789'' ! d"

text \<open>The decimal numeral of a natural number, most significant digit first.\<close>

fun decimal :: "nat \<Rightarrow> string" where
  "decimal n = (if n < 10 then [digit n] else decimal (n div 10) @ [digit (n mod 10)])"

declare decimal.simps [simp del]

text \<open>\<open>strconv.FormatUint(x, 10)\<close> and the verb \<open>%d\<close> on a \<open>uint64\<close>.\<close>

definition FormatUint :: "uint64 \<Rightarrow> string" where
  "FormatUint x = decimal (unat x)"

text \<open>\<open>strconv.Itoa\<close> on Go's \<open>int\<close>.\<close>

definition Itoa :: "int \<Rightarrow> string" where
  "Itoa i = (if i < 0 then ''-'' @ decimal (nat (- i)) else decimal (nat i))"

text \<open>
  \<open>strconv.FormatFloat(x, 'f', prec, 64)\<close> prints the exact value of \<open>x\<close> rounded to
  \<open>prec\<close> decimals; a value exactly half way between two candidates goes to the one whose
  last digit is even. \<open>roundHalfEven a b\<close> is the quotient \<open>a / b\<close> rounded that way.
\<close>

definition roundHalfEven :: "nat \<Rightarrow> nat \<Rightarrow> nat" where
  "roundHalfEven a b =
     (let q = a div b; r = a mod b
      in if 2 * r < b then q
         else if b < 2 * r then q + 1
         else if even q then q else q + 1)"

definition zeroPad :: "nat \<Rightarrow> string \<Rightarrow> string" where
  "zeroPad k s = replicate (k - length s) CHR ''0'' @ s"

definition fixedDigits :: "nat \<Rightarrow> nat \<Rightarrow> nat \<Rightarrow> string" where
  "fixedDigits prec m e =
     (let n = roundHalfEven (m * 10 ^ prec) (2 ^ e)
      in decimal (n div 10 ^ prec) @
         (if prec = 0 then [] else ''.'' @ zeroPad prec (decimal (n mod 10 ^ prec))))"

fun FormatFloat :: "float64 \<Rightarrow> nat \<Rightarrow> string" where
  "FormatFloat NaN prec = ''NaN''"
| "FormatFloat (Infinite neg) prec = (if neg then ''-Inf'' else ''+Inf'')"
| "FormatFloat (Finite neg m e) prec = (if neg then ''-'' else []) @ fixedDigits prec m e"

text \<open>
  The verb \<open>%2.f\<close> of package \<open>fmt\<close>: precision 0 (a dot with no digits), padded on the
  left with spaces to width 2.
\<close>

definition padLeft :: "nat \<Rightarrow> string \<Rightarrow> string" where
  "padLeft k s = replicate (k - length s) CHR '' '' @ s"

definition Sprintf_2f :: "float64 \<Rightarrow> string" where
  "Sprintf_2f x = padLeft 2 (FormatFloat x 0)"

text \<open>\<open>fmt.Println\<close> on strings: the operands separated by spaces, then a newline.\<close>

fun spaced :: "string list \<Rightarrow> string" where
  "spaced [] = []"
| "spaced [s] = s"
| "spaced (s # t # ss) = s @ '' '' @ spaced (t # ss)"

definition Println :: "string list \<Rightarrow> string" where
  "Println ss = spaced ss @ newline"

section \<open>The records of the metrics provider\<close>

text \<open>
  Only the fields the programs read are kept. A query of the provider returns a record or
  an error, never both and never neither: the \<open>Get\<close> functions pass the pair on as it is,
  and every caller reads the record only when the error is nil.
\<close>

record host_InfoStat =
  host_Hostname :: string
  host_Platform :: string
  host_PlatformVersion :: string
  host_KernelArch :: string

record cpu_InfoStat =
  cpu_ModelName :: string
  cpu_Family :: string
  cpu_Mhz :: float64

record VirtualMemoryStat =
  mem_Total :: uint64
  mem_Available :: uint64
  mem_UsedPercent :: float64

record UsageStat =
  disk_Total :: uint64
  disk_Used :: uint64
  disk_Free :: uint64
  disk_UsedPercent :: float64

datatype error = Error string

record provider =
  host_Info :: "error + host_InfoStat"
  cpu_Info :: "error + cpu_InfoStat list"
  mem_VirtualMemory :: "error + VirtualMemoryStat"
  disk_Usage :: "error + UsageStat"
  cpu_Percent :: "error + float64 list"

definition GetHostMemory :: "'z provider_scheme \<Rightarrow> error + VirtualMemoryStat" where
  "GetHostMemory p =
     (case mem_VirtualMemory p of Inl err \<Rightarrow> Inl err | Inr vmStat \<Rightarrow> Inr vmStat)"

definition GetHostInformation :: "'z provider_scheme \<Rightarrow> error + host_InfoStat" where
  "GetHostInformation p =
     (case host_Info p of Inl err \<Rightarrow> Inl err | Inr hostStat \<Rightarrow> Inr hostStat)"

definition GetDiskInformation :: "'z provider_scheme \<Rightarrow> error + UsageStat" where
  "GetDiskInformation p =
     (case disk_Usage p of Inl err \<Rightarrow> Inl err | Inr diskStat \<Rightarrow> Inr diskStat)"

definition GetCPUPercentage :: "'z provider_scheme \<Rightarrow> error + float64 list" where
  "GetCPUPercentage p =
     (case cpu_Percent p of Inl err \<Rightarrow> Inl err | Inr percentage \<Rightarrow> Inr percentage)"

definition GetCPUStat :: "'z provider_scheme \<Rightarrow> error + cpu_InfoStat list" where
  "GetCPUStat p =
     (case cpu_Info p of Inl err \<Rightarrow> Inl err | Inr cpuStat \<Rightarrow> Inr cpuStat)"

section \<open>The console printer (src/main.go)\<close>

text \<open>Every function returns the text it writes to standard output.\<close>

definition megabyteDiv :: uint64 where
  "megabyteDiv = 1024 * 1024"

definition gigabyteDiv :: uint64 where
  "gigabyteDiv = megabyteDiv * 1024"

definition DisplayHostMemory :: "VirtualMemoryStat \<Rightarrow> string" where
  "DisplayHostMemory vmStat =
     Println [''Total memory:'', FormatUint (mem_Total vmStat div megabyteDiv), ''MB''] @
     Println [''Free memory:'', FormatUint (mem_Available vmStat div megabyteDiv), ''MB''] @
     Println [''Percentage used memory:'', FormatFloat (mem_UsedPercent vmStat) 2, ''%'']"

definition DisplayHostInformation :: "host_InfoStat \<Rightarrow> string" where
  "DisplayHostInformation hostStat =
     (''Hostname: '' @ host_Hostname hostStat @ newline) @
     (''Operating System: '' @ host_Platform hostStat @ '' '' @ host_PlatformVersion hostStat @
        '' ('' @ host_KernelArch hostStat @ '')'' @ newline)"

definition DisplayDiskInformation :: "UsageStat \<Rightarrow> string" where
  "DisplayDiskInformation diskStat =
     (''Total disk space: '' @ FormatUint (disk_Total diskStat div gigabyteDiv) @ '' GB'' @ newline) @
     (''Used disk space: '' @ FormatUint (disk_Used diskStat div gigabyteDiv) @ '' GB'' @ newline) @
     (''Free disk space: '' @ FormatUint (disk_Free diskStat div gigabyteDiv) @ '' GB'' @ newline) @
     (''Percentage disk space usage: '' @ FormatFloat (disk_UsedPercent diskStat) 2 @ '' %'' @ newline)"

text \<open>
  The two loops of \<open>DisplayCPUPercentage\<close>. A Go \<open>range\<close> loop over a slice visits the
  pairs of index and element in order; \<open>coreLine\<close> is the \<open>Printf\<close> of both loop bodies.
\<close>

definition firstCpus :: "float64 list \<Rightarrow> float64 list" where
  "firstCpus percentage = take (length percentage div 2) percentage"

definition secondCpus :: "float64 list \<Rightarrow> float64 list" where
  "secondCpus percentage = drop (length percentage div 2) percentage"

definition coreLine :: "int \<Rightarrow> float64 \<Rightarrow> string" where
  "coreLine idx cpupercent =
     tab @ ''CPU ['' @ Itoa idx @ '']: '' @ FormatFloat cpupercent 2 @ '' %'' @ newline"

definition firstLoop :: "float64 list \<Rightarrow> (int \<times> float64) list" where
  "firstLoop percentage =
     map (\<lambda>(idx, cpupercent). (int idx, cpupercent)) (enumerate 0 (firstCpus percentage))"

definition secondLoop :: "float64 list \<Rightarrow> (int \<times> float64) list" where
  "secondLoop percentage =
     (let oftset = int (length (firstCpus percentage))
      in map (\<lambda>(idx, cpupercent). (int idx + oftset, cpupercent))
           (enumerate 0 (secondCpus percentage)))"

definition DisplayCPUPercentage :: "float64 list \<Rightarrow> string" where
  "DisplayCPUPercentage percentage =
     Println [''Cores:''] @
     concat (map (\<lambda>(i, cpupercent). coreLine i cpupercent) (firstLoop percentage)) @
     concat (map (\<lambda>(i, cpupercent). coreLine i cpupercent) (secondLoop percentage))"

definition DisplayCPUStat :: "cpu_InfoStat list \<Rightarrow> string" where
  "DisplayCPUStat cpuStat =
     (if length cpuStat \<noteq> 0
      then (''Model Name: '' @ cpu_ModelName (cpuStat ! 0) @ '' '') @
           (''Family: '' @ cpu_Family (cpuStat ! 0) @ '' '') @
           (''Speed: '' @ FormatFloat (cpu_Mhz (cpuStat ! 0)) 2 @ '' MHz'' @ newline)
      else [])"

definition main :: "'z provider_scheme \<Rightarrow> string" where
  "main p =
     (case GetHostInformation p of Inr host \<Rightarrow> DisplayHostInformation host | Inl err \<Rightarrow> []) @
     (case GetCPUStat p of Inr stat \<Rightarrow> DisplayCPUStat stat | Inl err \<Rightarrow> []) @
     (case GetHostMemory p of Inr mem \<Rightarrow> DisplayHostMemory mem | Inl err \<Rightarrow> []) @
     (case GetDiskInformation p of Inr disk \<Rightarrow> DisplayDiskInformation disk | Inl err \<Rightarrow> []) @
     (case GetCPUPercentage p of Inr percentage \<Rightarrow> DisplayCPUPercentage percentage
      | Inl err \<Rightarrow> [])"

section \<open>The styled status bar (src/unnamed/part_000 and part_001)\<close>

text \<open>
  The terminal-styling library is an external collaborator. Its style builders and its
  rendering and joining functions are kept as the calls the program makes: a value of
  \<open>rendered\<close> stands for the string such a call returns. What the program learns about such
  a string is its width (\<open>lipgloss.Width\<close>), a parameter of the model, as is the title
  casing of package \<open>cases\<close>. A method call \<open>s.Width(n)\<close> is written \<open>Width n s\<close>.
  Widths are Go's \<open>int\<close>, modelled as \<open>int\<close>: they are column counts, and a difference of
  three of them is far from the ends of the 64-bit range. The style variables are the same
  in both files; \<open>cpuStyle\<close> of part_001 is never used and is left out.
\<close>

datatype position = Top | Left | Center | Right

datatype color = Color string | AdaptiveColor string string

datatype style =
    NewStyle
  | Inherit style style
  | Align position style
  | Padding "int list" style
  | Foreground color style
  | Background color style
  | Bold bool style
  | MarginRight int style
  | MarginLeft int style
  | Width int style

datatype rendered =
    Style_Render style string
  | JoinHorizontal position "rendered list"
  | JoinVertical position "rendered list"

record library =
  lipgloss_Width :: "rendered \<Rightarrow> int"
  cases_Title :: "string \<Rightarrow> string"

definition statusBarStyle :: style where
  "statusBarStyle =
     Background (AdaptiveColor ''#000000'' ''#512B81'')
       (Foreground (AdaptiveColor ''#FFFFFF'' ''#8CABFF'') NewStyle)"

definition diskStyle :: style where
  "diskStyle = Padding [0, 1] (Align Right (Inherit statusBarStyle NewStyle))"

definition memoryStyle :: style where
  "memoryStyle = Padding [0, 1] (Align Left (Inherit statusBarStyle NewStyle))"

definition highlightLeftStyle :: style where
  "highlightLeftStyle =
     MarginRight 1 (Padding [0, 1] (Bold True (Background (Color ''#35155D'')
       (Inherit statusBarStyle NewStyle))))"

definition highlightRightStyle :: style where
  "highlightRightStyle =
     MarginLeft 1 (Padding [0, 1] (Bold True (Background (Color ''#35155D'')
       (Inherit statusBarStyle NewStyle))))"

definition generalTextStyle :: style where
  "generalTextStyle =
     Bold True (Foreground (Color ''#FFFFFF'') (Inherit statusBarStyle NewStyle))"

text \<open>
  A Go pointer is an option; reading a field through a nil pointer panics, as does an
  index outside a slice. A function that can panic returns a sum.
\<close>

datatype panic = NilPointerDereference | IndexOutOfRange

definition deref :: "'a option \<Rightarrow> panic + 'a" where
  "deref p = (case p of None \<Rightarrow> Inl NilPointerDereference | Some v \<Rightarrow> Inr v)"

definition at :: "'a list \<Rightarrow> nat \<Rightarrow> panic + 'a" where
  "at xs i = (if i < length xs then Inr (xs ! i) else Inl IndexOutOfRange)"

definition andThen :: "panic + 'a \<Rightarrow> ('a \<Rightarrow> panic + 'b) \<Rightarrow> panic + 'b" where
  "andThen r f = (case r of Inl e \<Rightarrow> Inl e | Inr v \<Rightarrow> f v)"

record StatusBar =
  cpu :: "cpu_InfoStat list"
  disk :: "UsageStat option"
  host :: "host_InfoStat option"
  mem :: "VirtualMemoryStat option"

definition NewStatusBar :: StatusBar where
  "NewStatusBar = \<lparr>cpu = [], disk = None, host = None, mem = None\<rparr>"

definition WithHostInformation :: "'z provider_scheme \<Rightarrow> StatusBar \<Rightarrow> StatusBar" where
  "WithHostInformation p sb =
     (case GetHostInformation p of Inr h \<Rightarrow> sb\<lparr>host := Some h\<rparr> | Inl err \<Rightarrow> sb)"

definition WithCPUInformation :: "'z provider_scheme \<Rightarrow> StatusBar \<Rightarrow> StatusBar" where
  "WithCPUInformation p sb =
     (case GetCPUStat p of Inr c \<Rightarrow> sb\<lparr>cpu := c\<rparr> | Inl err \<Rightarrow> sb)"

definition WithMemoryInformation :: "'z provider_scheme \<Rightarrow> StatusBar \<Rightarrow> StatusBar" where
  "WithMemoryInformation p sb =
     (case GetHostMemory p of Inr m \<Rightarrow> sb\<lparr>mem := Some m\<rparr> | Inl err \<Rightarrow> sb)"

definition WithDiskInformation :: "'z provider_scheme \<Rightarrow> StatusBar \<Rightarrow> StatusBar" where
  "WithDiskInformation p sb =
     (case GetDiskInformation p of Inr d \<Rightarrow> sb\<lparr>disk := Some d\<rparr> | Inl err \<Rightarrow> sb)"

text \<open>The builder chain of both status bars' \<open>main\<close>.\<close>

definition buildStatusBar :: "'z provider_scheme \<Rightarrow> StatusBar" where
  "buildStatusBar p =
     WithDiskInformation p (WithMemoryInformation p (WithCPUInformation p
       (WithHostInformation p NewStatusBar)))"

text \<open>
  A run sees the terminal twice at most: when the package variables are initialised,
  before \<open>main\<close> starts, and when \<open>Render\<close> runs. \<open>term.GetSize\<close> returns width, height
  and error; the programs keep the width.
\<close>

record world = provider +
  term_GetSize_at_load :: "int \<times> int \<times> error option"
  term_GetSize_at_render :: "int \<times> int \<times> error option"

subsection \<open>part_000: guarded cells, width read at load\<close>

definition zero_float64 :: float64 where
  "zero_float64 = Finite False 0 0"

definition DisplayHostMemory_000 :: "StatusBar \<Rightarrow> int \<Rightarrow> panic + rendered" where
  "DisplayHostMemory_000 sb width =
     andThen
       (if mem sb \<noteq> None
        then andThen (deref (mem sb)) (\<lambda>m.
               let memoryTotal = mem_Total m div megabyteDiv;
                   memoryAvailable = mem_Available m div megabyteDiv;
                   memoryInUse = memoryTotal - memoryAvailable;
                   memoryUsedPercentenge = mem_UsedPercent m
               in Inr (memoryTotal, memoryInUse, memoryUsedPercentenge))
        else Inr (0, 0, zero_float64))
       (\<lambda>(memoryTotal, memoryInUse, memoryUsedPercentenge).
          let memoryInformation =
                ''Memory: '' @ FormatUint memoryInUse @ '' of '' @ FormatUint memoryTotal @
                '' MB used ('' @ Sprintf_2f memoryUsedPercentenge @ ''%)''
          in Inr (Style_Render (Width width memoryStyle) memoryInformation))"

definition DisplayHostInformation_000 :: "StatusBar \<Rightarrow> int \<Rightarrow> panic + rendered" where
  "DisplayHostInformation_000 sb width =
     andThen
       (if host sb \<noteq> None
        then andThen (deref (host sb)) (\<lambda>h. Inr (host_Hostname h, host_KernelArch h))
        else Inr ([], []))
       (\<lambda>(hostName, hostArch).
          let hostInformation = hostName @ '' '' @ hostArch
          in Inr (Style_Render (Align Center (Width width generalTextStyle)) hostInformation))"

definition DisplayPlatformInformation_000 :: "library \<Rightarrow> StatusBar \<Rightarrow> panic + rendered" where
  "DisplayPlatformInformation_000 L sb =
     andThen
       (if host sb \<noteq> None
        then andThen (deref (host sb)) (\<lambda>h.
               Inr (cases_Title L (host_Platform h), host_PlatformVersion h))
        else Inr ([], []))
       (\<lambda>(platformName, platformVersion).
          let platformInformation = platformName @ '' '' @ platformVersion
          in Inr (Style_Render highlightLeftStyle platformInformation))"

definition DisplayDiskInformation_000 :: "StatusBar \<Rightarrow> panic + rendered" where
  "DisplayDiskInformation_000 sb =
     andThen
       (if disk sb \<noteq> None
        then andThen (deref (disk sb)) (\<lambda>d.
               let diskTotal = disk_Total d div gigabyteDiv;
                   diskUsed = disk_Used d div gigabyteDiv;
                   diskUsedPercent = disk_UsedPercent d
               in Inr (diskTotal, diskUsed, diskUsedPercent))
        else Inr (0, 0, zero_float64))
       (\<lambda>(diskTotal, diskUsed, diskUsedPercent).
          let diskInformation =
                ''Disk: '' @ FormatUint diskUsed @ '' of '' @ FormatUint diskTotal @
                '' GB used ('' @ Sprintf_2f diskUsedPercent @ ''%)''
          in Inr (Style_Render (Align Right diskStyle) diskInformation))"

definition DisplayCPUInformation_000 :: "StatusBar \<Rightarrow> panic + rendered" where
  "DisplayCPUInformation_000 sb =
     andThen
       (if length (cpu sb) \<noteq> 0
        then andThen (at (cpu sb) 0) (\<lambda>c.
               Inr (cpu_ModelName c @ '' '' @ FormatFloat (cpu_Mhz c) 2 @ '' MHz''))
        else Inr [])
       (\<lambda>cpuInformation. Inr (Style_Render highlightRightStyle cpuInformation))"

text \<open>
  \<open>Render\<close> of part_000 reads the package variable \<open>terminalWidth\<close>, here its second
  argument. The result is the bar handed to \<open>fmt.Println\<close>.
\<close>

definition Render_000 :: "library \<Rightarrow> int \<Rightarrow> StatusBar \<Rightarrow> panic + rendered" where
  "Render_000 L terminalWidth sb =
     (let w = lipgloss_Width L in
      andThen (DisplayPlatformInformation_000 L sb) (\<lambda>platformCell.
      andThen (DisplayCPUInformation_000 sb) (\<lambda>cpuCell.
      andThen (DisplayHostInformation_000 sb (terminalWidth - w platformCell - w cpuCell))
        (\<lambda>hostCell.
      andThen (DisplayDiskInformation_000 sb) (\<lambda>diskCell.
      andThen (DisplayHostMemory_000 sb (terminalWidth - w diskCell)) (\<lambda>memoryCell.
        let firstLine = JoinHorizontal Top [platformCell, hostCell, cpuCell];
            secondLine = JoinHorizontal Top [memoryCell, diskCell];
            bar = JoinVertical Top [firstLine, secondLine]
        in Inr bar))))))"

definition main_000 :: "library \<Rightarrow> world \<Rightarrow> panic + rendered" where
  "main_000 L W =
     (let terminalWidth = fst (term_GetSize_at_load W);
          bar = buildStatusBar W
      in Render_000 L terminalWidth bar)"

subsection \<open>part_001: unguarded reads, width queried in Render\<close>

definition Render_001 :: "library \<Rightarrow> world \<Rightarrow> StatusBar \<Rightarrow> panic + rendered" where
  "Render_001 L W sb =
     (let terminalWidth = fst (term_GetSize_at_render W);
          w = lipgloss_Width L in
      andThen (deref (host sb)) (\<lambda>h.
        let platformName = cases_Title L (host_Platform h);
            platformVersion = host_PlatformVersion h;
            platformInformation = platformName @ '' '' @ platformVersion;
            hostName = host_Hostname h;
            hostArch = host_KernelArch h;
            hostInformation = hostName @ '' '' @ hostArch
        in
      andThen
        (if length (cpu sb) \<noteq> 0
         then andThen (at (cpu sb) 0) (\<lambda>c.
                Inr (cpu_ModelName c @ '' '' @ FormatFloat (cpu_Mhz c) 2 @ '' MHz''))
         else Inr [])
        (\<lambda>cpuInformation.
        let platformCell = Style_Render highlightLeftStyle platformInformation;
            cpuCell = Style_Render highlightRightStyle cpuInformation;
            hostVal = Style_Render
              (Align Center (Width (terminalWidth - w platformCell - w cpuCell) generalTextStyle))
              hostInformation;
            barLine1 = JoinHorizontal Top [platformCell, hostVal, cpuCell]
        in
      andThen (deref (disk sb)) (\<lambda>d.
        let diskTotal = disk_Total d div gigabyteDiv;
            diskUsed = disk_Used d div gigabyteDiv;
            diskUsedPercent = disk_UsedPercent d;
            diskInformation =
              ''Disk: '' @ FormatUint diskUsed @ '' of '' @ FormatUint diskTotal @
              '' used ('' @ Sprintf_2f diskUsedPercent @ '' %)'';
            diskCell = Style_Render (Align Right diskStyle) diskInformation
        in
      andThen (deref (mem sb)) (\<lambda>m.
        let memoryTotal = mem_Total m div megabyteDiv;
            memoryAvailable = mem_Available m div megabyteDiv;
            memoryInUse = memoryTotal - memoryAvailable;
            memoryUsedPercentenge = mem_UsedPercent m;
            memoryInformation =
              ''Memory used: '' @ FormatUint memoryInUse @ '' of '' @ FormatUint memoryTotal @
              '' MB ('' @ Sprintf_2f memoryUsedPercentenge @ ''% used)'';
            memoryCell = Style_Render (Width (terminalWidth - w diskCell) memoryStyle)
              memoryInformation;
            barLine2 = JoinHorizontal Top [memoryCell, diskCell];
            bar = JoinVertical Top [barLine1, barLine2]
        in Inr bar)))))"

definition main_001 :: "library \<Rightarrow> world \<Rightarrow> panic + rendered" where
  "main_001 L W = (let bar = buildStatusBar W in Render_001 L W bar)"

section \<open>Lines of an output\<close>

text \<open>The lines of a text: its pieces between newlines, a last unfinished piece included.\<close>

fun splitLines :: "string \<Rightarrow> string list" where
  "splitLines [] = []"
| "splitLines (c # cs) =
     (if c = CHR 0x0A then [] # splitLines cs
      else (case splitLines cs of [] \<Rightarrow> [[c]] | l # ls \<Rightarrow> (c # l) # ls))"

section \<open>The end-to-end scenario of the spec\<close>

text \<open>
  The snapshot of the spec's console scenario. The scenario gives neither the free bytes of
  the disk record nor the per-core percentages; both are parameters here. The CPU family
  is empty, as in the line the scenario expects.
\<close>

definition scenario :: "uint64 \<Rightarrow> error + float64 list \<Rightarrow> provider" where
  "scenario free percentage =
     \<lparr>host_Info = Inr \<lparr>host_Hostname = ''box1'', host_Platform = ''ubuntu'',
        host_PlatformVersion = ''22.04'', host_KernelArch = ''x86_64''\<rparr>,
      cpu_Info = Inr [\<lparr>cpu_ModelName = ''Gen9'', cpu_Family = [], cpu_Mhz = Finite False 3200 0\<rparr>],
      mem_VirtualMemory = Inr \<lparr>mem_Total = 8589934592, mem_Available = 2147483648,
        mem_UsedPercent = Finite False 75 0\<rparr>,
      disk_Usage = Inr \<lparr>disk_Total = 107374182400, disk_Used = 53687091200, disk_Free = free,
        disk_UsedPercent = Finite False 50 0\<rparr>,
      cpu_Percent = percentage\<rparr>"


section \<open>Helper lemmas: units, cells and layout\<close>

lemma unat_div_megabyteDiv: "unat (b div megabyteDiv) = unat b div 1048576"
  by (simp add: megabyteDiv_def unat_div)

lemma unat_div_gigabyteDiv: "unat (b div gigabyteDiv) = unat b div 1073741824"
  by (simp add: gigabyteDiv_def megabyteDiv_def unat_div)

lemma Println_three: "Println [a, b, c] = a @ '' '' @ b @ '' '' @ c @ newline"
  by (simp add: Println_def)

lemma DisplayHostMemory_text:
  "DisplayHostMemory vm =
     ''Total memory: '' @ decimal (unat (mem_Total vm) div 1048576) @ '' MB'' @ newline @
     ''Free memory: '' @ decimal (unat (mem_Available vm) div 1048576) @ '' MB'' @ newline @
     ''Percentage used memory: '' @ FormatFloat (mem_UsedPercent vm) 2 @ '' %'' @ newline"
  by (simp add: DisplayHostMemory_def Println_three FormatUint_def unat_div_megabyteDiv)

lemma DisplayDiskInformation_text:
  "DisplayDiskInformation d =
     ''Total disk space: '' @ decimal (unat (disk_Total d) div 1073741824) @ '' GB'' @ newline @
     ''Used disk space: '' @ decimal (unat (disk_Used d) div 1073741824) @ '' GB'' @ newline @
     ''Free disk space: '' @ decimal (unat (disk_Free d) div 1073741824) @ '' GB'' @ newline @
     ''Percentage disk space usage: '' @ FormatFloat (disk_UsedPercent d) 2 @ '' %'' @ newline"
  by (simp add: DisplayDiskInformation_def FormatUint_def unat_div_gigabyteDiv)

lemma DisplayHostMemory_000_present:
  "mem sb = Some vm \<Longrightarrow>
   DisplayHostMemory_000 sb width =
     Inr (Style_Render (Width width memoryStyle)
       (''Memory: '' @ FormatUint (mem_Total vm div megabyteDiv - mem_Available vm div megabyteDiv) @
        '' of '' @ FormatUint (mem_Total vm div megabyteDiv) @
        '' MB used ('' @ Sprintf_2f (mem_UsedPercent vm) @ ''%)''))"
  by (simp add: DisplayHostMemory_000_def andThen_def deref_def Let_def)

lemma Sprintf_2f_zero: "Sprintf_2f zero_float64 = '' 0''"
  by (simp add: Sprintf_2f_def zero_float64_def fixedDigits_def roundHalfEven_def padLeft_def
      decimal.simps digit_def)

lemma FormatUint_zero: "FormatUint 0 = ''0''"
  by (simp add: FormatUint_def decimal.simps digit_def)

lemma DisplayHostMemory_000_absent:
  "mem sb = None \<Longrightarrow>
   DisplayHostMemory_000 sb width =
     Inr (Style_Render (Width width memoryStyle) ''Memory: 0 of 0 MB used ( 0%)'')"
  by (simp add: DisplayHostMemory_000_def andThen_def Let_def Sprintf_2f_zero FormatUint_zero)

lemma DisplayDiskInformation_000_present:
  "disk sb = Some d \<Longrightarrow>
   DisplayDiskInformation_000 sb =
     Inr (Style_Render (Align Right diskStyle)
       (''Disk: '' @ FormatUint (disk_Used d div gigabyteDiv) @
        '' of '' @ FormatUint (disk_Total d div gigabyteDiv) @
        '' GB used ('' @ Sprintf_2f (disk_UsedPercent d) @ ''%)''))"
  by (simp add: DisplayDiskInformation_000_def andThen_def deref_def Let_def)

lemma DisplayDiskInformation_000_absent:
  "disk sb = None \<Longrightarrow>
   DisplayDiskInformation_000 sb =
     Inr (Style_Render (Align Right diskStyle) ''Disk: 0 of 0 GB used ( 0%)'')"
  by (simp add: DisplayDiskInformation_000_def andThen_def Let_def Sprintf_2f_zero FormatUint_zero)

lemma DisplayHostInformation_000_present:
  "host sb = Some h \<Longrightarrow>
   DisplayHostInformation_000 sb width =
     Inr (Style_Render (Align Center (Width width generalTextStyle))
       (host_Hostname h @ '' '' @ host_KernelArch h))"
  by (simp add: DisplayHostInformation_000_def andThen_def deref_def Let_def)

lemma DisplayHostInformation_000_absent:
  "host sb = None \<Longrightarrow>
   DisplayHostInformation_000 sb width =
     Inr (Style_Render (Align Center (Width width generalTextStyle)) '' '')"
  by (simp add: DisplayHostInformation_000_def andThen_def Let_def)

lemma DisplayPlatformInformation_000_present:
  "host sb = Some h \<Longrightarrow>
   DisplayPlatformInformation_000 L sb =
     Inr (Style_Render highlightLeftStyle
       (cases_Title L (host_Platform h) @ '' '' @ host_PlatformVersion h))"
  by (simp add: DisplayPlatformInformation_000_def andThen_def deref_def Let_def)

lemma DisplayPlatformInformation_000_absent:
  "host sb = None \<Longrightarrow>
   DisplayPlatformInformation_000 L sb = Inr (Style_Render highlightLeftStyle '' '')"
  by (simp add: DisplayPlatformInformation_000_def andThen_def Let_def)

lemma DisplayCPUInformation_000_present:
  "cpu sb = c # cs \<Longrightarrow>
   DisplayCPUInformation_000 sb =
     Inr (Style_Render highlightRightStyle
       (cpu_ModelName c @ '' '' @ FormatFloat (cpu_Mhz c) 2 @ '' MHz''))"
  by (simp add: DisplayCPUInformation_000_def andThen_def at_def)

lemma DisplayCPUInformation_000_absent:
  "cpu sb = [] \<Longrightarrow>
   DisplayCPUInformation_000 sb = Inr (Style_Render highlightRightStyle [])"
  by (simp add: DisplayCPUInformation_000_def andThen_def)

text \<open>Every cell function of part_000 returns a cell.\<close>

lemma DisplayHostMemory_000_returns: "\<exists>t. DisplayHostMemory_000 sb width = Inr (Style_Render (Width width memoryStyle) t)"
  by (cases "mem sb") (simp_all add: DisplayHostMemory_000_present DisplayHostMemory_000_absent)

lemma DisplayHostInformation_000_returns:
  "\<exists>t. DisplayHostInformation_000 sb width = Inr (Style_Render (Align Center (Width width generalTextStyle)) t)"
  by (cases "host sb") (simp_all add: DisplayHostInformation_000_present DisplayHostInformation_000_absent)

lemma DisplayPlatformInformation_000_returns:
  "\<exists>c. DisplayPlatformInformation_000 L sb = Inr c"
  by (cases "host sb") (simp_all add: DisplayPlatformInformation_000_present DisplayPlatformInformation_000_absent)

lemma DisplayDiskInformation_000_returns:
  "\<exists>c. DisplayDiskInformation_000 sb = Inr c"
  by (cases "disk sb") (simp_all add: DisplayDiskInformation_000_present DisplayDiskInformation_000_absent)

lemma DisplayCPUInformation_000_returns:
  "\<exists>c. DisplayCPUInformation_000 sb = Inr c"
  by (cases "cpu sb") (simp_all add: DisplayCPUInformation_000_present DisplayCPUInformation_000_absent)

lemma Render_000_layout:
  "\<exists>platformCell cpuCell diskCell hostInformation memoryInformation.
     DisplayPlatformInformation_000 L sb = Inr platformCell \<and>
     DisplayCPUInformation_000 sb = Inr cpuCell \<and>
     DisplayDiskInformation_000 sb = Inr diskCell \<and>
     DisplayHostInformation_000 sb (terminalWidth - lipgloss_Width L platformCell - lipgloss_Width L cpuCell) =
       Inr (Style_Render
          (Align Center (Width (terminalWidth - lipgloss_Width L platformCell - lipgloss_Width L cpuCell)
             generalTextStyle)) hostInformation) \<and>
     DisplayHostMemory_000 sb (terminalWidth - lipgloss_Width L diskCell) =
       Inr (Style_Render (Width (terminalWidth - lipgloss_Width L diskCell) memoryStyle) memoryInformation) \<and>
     Render_000 L terminalWidth sb =
       Inr (JoinVertical Top
         [JoinHorizontal Top
            [platformCell,
             Style_Render
               (Align Center (Width (terminalWidth - lipgloss_Width L platformCell - lipgloss_Width L cpuCell)
                  generalTextStyle)) hostInformation,
             cpuCell],
          JoinHorizontal Top
            [Style_Render (Width (terminalWidth - lipgloss_Width L diskCell) memoryStyle) memoryInformation,
             diskCell]])"
proof -
  obtain pc where pc: "DisplayPlatformInformation_000 L sb = Inr pc"
    using DisplayPlatformInformation_000_returns by blast
  obtain cc where cc: "DisplayCPUInformation_000 sb = Inr cc"
    using DisplayCPUInformation_000_returns by blast
  obtain dc where dc: "DisplayDiskInformation_000 sb = Inr dc"
    using DisplayDiskInformation_000_returns by blast
  obtain ht where ht: "DisplayHostInformation_000 sb (terminalWidth - lipgloss_Width L pc - lipgloss_Width L cc) =
       Inr (Style_Render (Align Center (Width (terminalWidth - lipgloss_Width L pc - lipgloss_Width L cc)
             generalTextStyle)) ht)"
    using DisplayHostInformation_000_returns by blast
  obtain mt where mt: "DisplayHostMemory_000 sb (terminalWidth - lipgloss_Width L dc) =
       Inr (Style_Render (Width (terminalWidth - lipgloss_Width L dc) memoryStyle) mt)"
    using DisplayHostMemory_000_returns by blast
  have "Render_000 L terminalWidth sb =
       Inr (JoinVertical Top
         [JoinHorizontal Top
            [pc, Style_Render (Align Center (Width (terminalWidth - lipgloss_Width L pc - lipgloss_Width L cc)
                  generalTextStyle)) ht, cc],
          JoinHorizontal Top
            [Style_Render (Width (terminalWidth - lipgloss_Width L dc) memoryStyle) mt, dc]])"
    by (simp add: Render_000_def Let_def andThen_def pc cc dc ht mt)
  with pc cc dc ht mt show ?thesis by blast
qed

lemma Render_001_present:
  "host sb = Some h \<Longrightarrow> disk sb = Some d \<Longrightarrow> mem sb = Some vm \<Longrightarrow>
   Render_001 L W sb =
     (let terminalWidth = fst (term_GetSize_at_render W);
          platformCell = Style_Render highlightLeftStyle
            (cases_Title L (host_Platform h) @ '' '' @ host_PlatformVersion h);
          cpuCell = Style_Render highlightRightStyle
            (case cpu sb of [] \<Rightarrow> []
             | c # cs \<Rightarrow> cpu_ModelName c @ '' '' @ FormatFloat (cpu_Mhz c) 2 @ '' MHz'');
          diskCell = Style_Render (Align Right diskStyle)
            (''Disk: '' @ FormatUint (disk_Used d div gigabyteDiv) @ '' of '' @
             FormatUint (disk_Total d div gigabyteDiv) @
             '' used ('' @ Sprintf_2f (disk_UsedPercent d) @ '' %)'')
      in Inr (JoinVertical Top
         [JoinHorizontal Top
            [platformCell,
             Style_Render
               (Align Center (Width (terminalWidth - lipgloss_Width L platformCell - lipgloss_Width L cpuCell)
                  generalTextStyle))
               (host_Hostname h @ '' '' @ host_KernelArch h),
             cpuCell],
          JoinHorizontal Top
            [Style_Render (Width (terminalWidth - lipgloss_Width L diskCell) memoryStyle)
               (''Memory used: '' @
                FormatUint (mem_Total vm div megabyteDiv - mem_Available vm div megabyteDiv) @
                '' of '' @ FormatUint (mem_Total vm div megabyteDiv) @
                '' MB ('' @ Sprintf_2f (mem_UsedPercent vm) @ ''% used)''),
             diskCell]]))"
  by (cases "cpu sb") (simp_all add: Render_001_def Let_def andThen_def deref_def at_def)

section \<open>The two loops of the per-core display\<close>

lemma min_half: "min (n::nat) (n div 2) = n div 2"
  by (rule min_absorb2) simp

lemma upt_split: "k \<le> n \<Longrightarrow> [0 ..< n] = [0 ..< k] @ [k ..< n]"
  by (metis le0 le_add_diff_inverse upt_add_eq_append)

lemma shifted_upt:
  "k \<le> n \<Longrightarrow> map (\<lambda>i. int i + int k) [0 ..< n - k] = map int [k ..< n]"
  by (rule nth_equalityI) (simp_all add: add.commute)

lemma firstLoop_zip:
  "firstLoop ps = zip (map int [0 ..< length ps div 2]) (take (length ps div 2) ps)"
  by (simp add: firstLoop_def firstCpus_def enumerate_eq_zip zip_map1 min_half)

lemma secondLoop_zip:
  "secondLoop ps = zip (map int [length ps div 2 ..< length ps]) (drop (length ps div 2) ps)"
proof -
  let ?k = "length ps div 2"
  have k: "?k \<le> length ps" by simp
  have "map (\<lambda>(idx, y). (int idx + int ?k, y)) (zip [0 ..< length ps - ?k] (drop ?k ps))
        = zip (map (\<lambda>i. int i + int ?k) [0 ..< length ps - ?k]) (drop ?k ps)"
    by (simp add: zip_map1)
  also have "map (\<lambda>i. int i + int ?k) [0 ..< length ps - ?k] = map int [?k ..< length ps]"
    by (rule shifted_upt) simp
  finally show ?thesis
    by (simp add: secondLoop_def secondCpus_def firstCpus_def enumerate_eq_zip Let_def min_half)
qed

lemma loops_cover:
  "firstLoop ps @ secondLoop ps = zip (map int [0 ..< length ps]) ps"
proof -
  let ?k = "length ps div 2"
  have "[0 ..< length ps] = [0 ..< ?k] @ [?k ..< length ps]"
    by (rule upt_split) simp
  then have "zip (map int [0 ..< length ps]) ps
      = zip (map int [0 ..< ?k] @ map int [?k ..< length ps]) (take ?k ps @ drop ?k ps)"
    by simp
  also have "\<dots> = zip (map int [0 ..< ?k]) (take ?k ps) @ zip (map int [?k ..< length ps]) (drop ?k ps)"
    by (rule zip_append) (simp add: min_half)
  finally show ?thesis
    by (simp add: firstLoop_zip secondLoop_zip)
qed

lemma zip_upt_nth:
  "zip (map int [0 ..< length ps]) ps = map (\<lambda>i. (int i, ps ! i)) [0 ..< length ps]"
  by (rule nth_equalityI) simp_all

text \<open>The example of the spec: five cores split into two and three.\<close>

lemma DisplayCPUPercentage_five_cores:
  "firstLoop [a, b, c, d, e] = [(0, a), (1, b)] \<and>
   secondLoop [a, b, c, d, e] = [(2, c), (3, d), (4, e)]"
  by (simp add: firstLoop_def secondLoop_def firstCpus_def secondCpus_def enumerate_eq_zip
      Let_def upt_rec)

text \<open>
  Claim C1. For every list of per-core percentages of length \<open>N\<close>, \<open>DisplayCPUPercentage\<close>
  splits it at the floor midpoint: the first half has \<open>N div 2\<close> entries, the second
  \<open>N - N div 2\<close>. The first loop prints the indices \<open>0 ..< N div 2\<close>, the second loop its
  own indices offset by the first half's length; together the printed indices are exactly
  \<open>0 ..< N\<close>, each once and in increasing order, beside the values in their original order.
\<close>

theorem C1_DisplayCPUPercentage_split:
  "length (firstCpus ps) = length ps div 2
   \<and> length (secondCpus ps) = length ps - length ps div 2
   \<and> firstCpus ps @ secondCpus ps = ps
   \<and> map fst (firstLoop ps) = map int [0 ..< length ps div 2]
   \<and> map fst (secondLoop ps) = map (\<lambda>idx. int idx + int (length (firstCpus ps))) [0 ..< length (secondCpus ps)]
   \<and> map fst (firstLoop ps @ secondLoop ps) = map int [0 ..< length ps]
   \<and> sorted_wrt (<) (map fst (firstLoop ps @ secondLoop ps))
   \<and> map snd (firstLoop ps @ secondLoop ps) = ps
   \<and> DisplayCPUPercentage ps =
       Println [''Cores:''] @ concat (map (\<lambda>i. coreLine (int i) (ps ! i)) [0 ..< length ps])"
proof -
  let ?k = "length ps div 2"
  have a: "length (firstCpus ps) = ?k" by (simp add: firstCpus_def min_half)
  have b: "length (secondCpus ps) = length ps - ?k" by (simp add: secondCpus_def)
  have c: "firstCpus ps @ secondCpus ps = ps" by (simp add: firstCpus_def secondCpus_def)
  have d: "map fst (firstLoop ps) = map int [0 ..< ?k]"
    by (simp add: firstLoop_zip min_half)
  have e: "map fst (secondLoop ps)
      = map (\<lambda>idx. int idx + int (length (firstCpus ps))) [0 ..< length (secondCpus ps)]"
    by (simp add: secondLoop_zip a b shifted_upt)
  have f: "map fst (firstLoop ps @ secondLoop ps) = map int [0 ..< length ps]"
    unfolding loops_cover by simp
  have g: "map snd (firstLoop ps @ secondLoop ps) = ps"
    unfolding loops_cover by simp
  have s: "sorted_wrt (<) (map fst (firstLoop ps @ secondLoop ps))"
    unfolding f by (simp add: sorted_wrt_map)
  have "concat (map (\<lambda>(i, cpupercent). coreLine i cpupercent) (firstLoop ps)) @
        concat (map (\<lambda>(i, cpupercent). coreLine i cpupercent) (secondLoop ps))
      = concat (map (\<lambda>(i, cpupercent). coreLine i cpupercent) (firstLoop ps @ secondLoop ps))"
    by simp
  also have "\<dots> = concat (map (\<lambda>i. coreLine (int i) (ps ! i)) [0 ..< length ps])"
    unfolding loops_cover zip_upt_nth by (simp add: comp_def)
  finally have h: "DisplayCPUPercentage ps =
       Println [''Cores:''] @ concat (map (\<lambda>i. coreLine (int i) (ps ! i)) [0 ..< length ps])"
    by (simp add: DisplayCPUPercentage_def)
  from a b c d e f g h s show ?thesis by blast
qed

section \<open>Unit conversion and the derived used memory\<close>

lemma unat_memoryInUse:
  "unat (t div megabyteDiv - a div megabyteDiv) =
     (if unat a div 1048576 \<le> unat t div 1048576
      then unat t div 1048576 - unat a div 1048576
      else unat t div 1048576 + 2 ^ 64 - unat a div 1048576)"
  by (simp add: unat_sub_if_size unat_div_megabyteDiv word_size)

lemma Render_001_second_line:
  "\<exists>barLine1 width.
     Render_001 L W \<lparr>cpu = c, disk = Some d, host = Some h, mem = Some vm\<rparr> =
       Inr (JoinVertical Top
         [barLine1,
          JoinHorizontal Top
            [Style_Render (Width width memoryStyle)
               (''Memory used: '' @
                FormatUint (mem_Total vm div megabyteDiv - mem_Available vm div megabyteDiv) @
                '' of '' @ FormatUint (mem_Total vm div megabyteDiv) @
                '' MB ('' @ Sprintf_2f (mem_UsedPercent vm) @ ''% used)''),
             Style_Render (Align Right diskStyle)
               (''Disk: '' @ FormatUint (disk_Used d div gigabyteDiv) @ '' of '' @
                FormatUint (disk_Total d div gigabyteDiv) @
                '' used ('' @ Sprintf_2f (disk_UsedPercent d) @ '' %)'')]])"
  by (simp add: Render_001_present Let_def)

text \<open>
  Claim C4. For every byte count \<open>b\<close> the megabyte value is \<open>b div 1048576\<close> and the
  gigabyte value \<open>b div 1073741824\<close>, by truncating division on unsigned 64-bit values
  (1048575 bytes are 0 MB, 2097152 bytes are 2 MB). Memory figures use the megabyte divisor
  and disk figures the gigabyte divisor, in the console printer and in both status bars.
\<close>

theorem C4_unit_conversion:
  "unat (b div megabyteDiv) = unat b div 1048576
   \<and> unat (b div gigabyteDiv) = unat b div 1073741824
   \<and> FormatUint (1048575 div megabyteDiv) = ''0''
   \<and> FormatUint (2097152 div megabyteDiv) = ''2''
   \<and> DisplayHostMemory vm =
       ''Total memory: '' @ decimal (unat (mem_Total vm) div 1048576) @ '' MB'' @ newline @
       ''Free memory: '' @ decimal (unat (mem_Available vm) div 1048576) @ '' MB'' @ newline @
       ''Percentage used memory: '' @ FormatFloat (mem_UsedPercent vm) 2 @ '' %'' @ newline
   \<and> DisplayDiskInformation d =
       ''Total disk space: '' @ decimal (unat (disk_Total d) div 1073741824) @ '' GB'' @ newline @
       ''Used disk space: '' @ decimal (unat (disk_Used d) div 1073741824) @ '' GB'' @ newline @
       ''Free disk space: '' @ decimal (unat (disk_Free d) div 1073741824) @ '' GB'' @ newline @
       ''Percentage disk space usage: '' @ FormatFloat (disk_UsedPercent d) 2 @ '' %'' @ newline
   \<and> DisplayHostMemory_000 (sb\<lparr>mem := Some vm\<rparr>) width =
       Inr (Style_Render (Width width memoryStyle)
         (''Memory: '' @
          FormatUint (mem_Total vm div megabyteDiv - mem_Available vm div megabyteDiv) @
          '' of '' @ decimal (unat (mem_Total vm) div 1048576) @
          '' MB used ('' @ Sprintf_2f (mem_UsedPercent vm) @ ''%)''))
   \<and> DisplayDiskInformation_000 (sb\<lparr>disk := Some d\<rparr>) =
       Inr (Style_Render (Align Right diskStyle)
         (''Disk: '' @ decimal (unat (disk_Used d) div 1073741824) @
          '' of '' @ decimal (unat (disk_Total d) div 1073741824) @
          '' GB used ('' @ Sprintf_2f (disk_UsedPercent d) @ ''%)''))
   \<and> (\<exists>barLine1 width'.
        Render_001 L W \<lparr>cpu = c, disk = Some d, host = Some h, mem = Some vm\<rparr> =
          Inr (JoinVertical Top
            [barLine1,
             JoinHorizontal Top
               [Style_Render (Width width' memoryStyle)
                  (''Memory used: '' @
                   FormatUint (mem_Total vm div megabyteDiv - mem_Available vm div megabyteDiv) @
                   '' of '' @ decimal (unat (mem_Total vm) div 1048576) @
                   '' MB ('' @ Sprintf_2f (mem_UsedPercent vm) @ ''% used)''),
                Style_Render (Align Right diskStyle)
                  (''Disk: '' @ decimal (unat (disk_Used d) div 1073741824) @ '' of '' @
                   decimal (unat (disk_Total d) div 1073741824) @
                   '' used ('' @ Sprintf_2f (disk_UsedPercent d) @ '' %)'')]]))"
proof -
  have ex0: "FormatUint (1048575 div megabyteDiv) = ''0''"
    by (simp add: FormatUint_def unat_div_megabyteDiv decimal.simps digit_def)
  have ex2: "FormatUint (2097152 div megabyteDiv) = ''2''"
    by (simp add: FormatUint_def unat_div_megabyteDiv decimal.simps digit_def)
  have m0: "DisplayHostMemory_000 (sb\<lparr>mem := Some vm\<rparr>) width =
       Inr (Style_Render (Width width memoryStyle)
         (''Memory: '' @
          FormatUint (mem_Total vm div megabyteDiv - mem_Available vm div megabyteDiv) @
          '' of '' @ decimal (unat (mem_Total vm) div 1048576) @
          '' MB used ('' @ Sprintf_2f (mem_UsedPercent vm) @ ''%)''))"
    using DisplayHostMemory_000_present [of "sb\<lparr>mem := Some vm\<rparr>" vm width]
    by (simp add: FormatUint_def unat_div_megabyteDiv)
  have d0: "DisplayDiskInformation_000 (sb\<lparr>disk := Some d\<rparr>) =
       Inr (Style_Render (Align Right diskStyle)
         (''Disk: '' @ decimal (unat (disk_Used d) div 1073741824) @
          '' of '' @ decimal (unat (disk_Total d) div 1073741824) @
          '' GB used ('' @ Sprintf_2f (disk_UsedPercent d) @ ''%)''))"
    using DisplayDiskInformation_000_present [of "sb\<lparr>disk := Some d\<rparr>" d]
    by (simp add: FormatUint_def unat_div_gigabyteDiv)
  have r1: "\<exists>barLine1 width'.
        Render_001 L W \<lparr>cpu = c, disk = Some d, host = Some h, mem = Some vm\<rparr> =
          Inr (JoinVertical Top
            [barLine1,
             JoinHorizontal Top
               [Style_Render (Width width' memoryStyle)
                  (''Memory used: '' @
                   FormatUint (mem_Total vm div megabyteDiv - mem_Available vm div megabyteDiv) @
                   '' of '' @ decimal (unat (mem_Total vm) div 1048576) @
                   '' MB ('' @ Sprintf_2f (mem_UsedPercent vm) @ ''% used)''),
                Style_Render (Align Right diskStyle)
                  (''Disk: '' @ decimal (unat (disk_Used d) div 1073741824) @ '' of '' @
                   decimal (unat (disk_Total d) div 1073741824) @
                   '' used ('' @ Sprintf_2f (disk_UsedPercent d) @ '' %)'')]])"
    using Render_001_second_line [of L W c d h vm]
    by (simp add: FormatUint_def unat_div_megabyteDiv unat_div_gigabyteDiv)
  show ?thesis
    using unat_div_megabyteDiv [of b] unat_div_gigabyteDiv [of b] ex0 ex2
      DisplayHostMemory_text [of vm] DisplayDiskInformation_text [of d] m0 d0 r1
    by blast
qed

text \<open>
  Claim C5. In the status bar the used-memory figure is derived from two fields of the
  memory record: total megabytes minus available megabytes, both already truncated, with no
  rounding of its own (total 8192 MB and available 2048 MB give 6144 MB). Stated where the
  available megabytes do not exceed the total; the other case is claim C10.
\<close>

theorem C5_used_memory_is_derived:
  assumes "unat (mem_Available vm) div 1048576 \<le> unat (mem_Total vm) div 1048576"
  shows "DisplayHostMemory_000 (sb\<lparr>mem := Some vm\<rparr>) width =
       Inr (Style_Render (Width width memoryStyle)
         (''Memory: '' @
          decimal (unat (mem_Total vm) div 1048576 - unat (mem_Available vm) div 1048576) @
          '' of '' @ decimal (unat (mem_Total vm) div 1048576) @
          '' MB used ('' @ Sprintf_2f (mem_UsedPercent vm) @ ''%)''))
   \<and> (\<exists>barLine1 width' diskCell.
        Render_001 L W \<lparr>cpu = c, disk = Some d, host = Some h, mem = Some vm\<rparr> =
          Inr (JoinVertical Top
            [barLine1,
             JoinHorizontal Top
               [Style_Render (Width width' memoryStyle)
                  (''Memory used: '' @
                   decimal (unat (mem_Total vm) div 1048576 - unat (mem_Available vm) div 1048576) @
                   '' of '' @ decimal (unat (mem_Total vm) div 1048576) @
                   '' MB ('' @ Sprintf_2f (mem_UsedPercent vm) @ ''% used)''),
                diskCell]]))"
proof -
  have u: "unat (mem_Total vm div megabyteDiv - mem_Available vm div megabyteDiv) =
      unat (mem_Total vm) div 1048576 - unat (mem_Available vm) div 1048576"
    using assms by (simp add: unat_memoryInUse)
  have a: "DisplayHostMemory_000 (sb\<lparr>mem := Some vm\<rparr>) width =
       Inr (Style_Render (Width width memoryStyle)
         (''Memory: '' @
          decimal (unat (mem_Total vm) div 1048576 - unat (mem_Available vm) div 1048576) @
          '' of '' @ decimal (unat (mem_Total vm) div 1048576) @
          '' MB used ('' @ Sprintf_2f (mem_UsedPercent vm) @ ''%)''))"
    using DisplayHostMemory_000_present [of "sb\<lparr>mem := Some vm\<rparr>" vm width]
    by (simp add: FormatUint_def unat_div_megabyteDiv u)
  have b: "\<exists>barLine1 width' diskCell.
        Render_001 L W \<lparr>cpu = c, disk = Some d, host = Some h, mem = Some vm\<rparr> =
          Inr (JoinVertical Top
            [barLine1,
             JoinHorizontal Top
               [Style_Render (Width width' memoryStyle)
                  (''Memory used: '' @
                   decimal (unat (mem_Total vm) div 1048576 - unat (mem_Available vm) div 1048576) @
                   '' of '' @ decimal (unat (mem_Total vm) div 1048576) @
                   '' MB ('' @ Sprintf_2f (mem_UsedPercent vm) @ ''% used)''),
                diskCell]])"
  proof -
    from Render_001_second_line [of L W c d h vm] obtain l1 w1 where
      "Render_001 L W \<lparr>cpu = c, disk = Some d, host = Some h, mem = Some vm\<rparr> =
         Inr (JoinVertical Top
           [l1,
            JoinHorizontal Top
              [Style_Render (Width w1 memoryStyle)
                 (''Memory used: '' @
                  FormatUint (mem_Total vm div megabyteDiv - mem_Available vm div megabyteDiv) @
                  '' of '' @ FormatUint (mem_Total vm div megabyteDiv) @
                  '' MB ('' @ Sprintf_2f (mem_UsedPercent vm) @ ''% used)''),
               Style_Render (Align Right diskStyle)
                 (''Disk: '' @ FormatUint (disk_Used d div gigabyteDiv) @ '' of '' @
                  FormatUint (disk_Total d div gigabyteDiv) @
                  '' used ('' @ Sprintf_2f (disk_UsedPercent d) @ '' %)'')]])"
      by blast
    then show ?thesis
      by (simp add: FormatUint_def unat_div_megabyteDiv u)
  qed
  from a b show ?thesis by blast
qed

theorem C5_used_memory_is_derived_witness:
  "unat (mem_Available \<lparr>mem_Total = 8589934592, mem_Available = 2147483648,
         mem_UsedPercent = Finite False 75 0\<rparr>) div 1048576
     \<le> unat (mem_Total \<lparr>mem_Total = 8589934592, mem_Available = 2147483648,
         mem_UsedPercent = Finite False 75 0\<rparr>) div 1048576
   \<and> DisplayHostMemory_000
       (NewStatusBar\<lparr>mem := Some \<lparr>mem_Total = 8589934592, mem_Available = 2147483648,
         mem_UsedPercent = Finite False 75 0\<rparr>\<rparr>) 60 =
     Inr (Style_Render (Width 60 memoryStyle) ''Memory: 6144 of 8192 MB used (75%)'')"
proof -
  let ?vm = "\<lparr>mem_Total = 8589934592, mem_Available = 2147483648,
         mem_UsedPercent = Finite False 75 0\<rparr>"
  have h: "unat (mem_Available ?vm) div 1048576 \<le> unat (mem_Total ?vm) div 1048576"
    by simp
  have "Sprintf_2f (Finite False 75 0) = ''75''"
    by (simp add: Sprintf_2f_def fixedDigits_def roundHalfEven_def padLeft_def
        decimal.simps digit_def)
  with h C5_used_memory_is_derived [OF h, where sb = NewStatusBar and width = 60]
  show ?thesis
    by (simp add: decimal.simps digit_def)
qed

lemma megabytes_bound: "unat (a :: uint64) div 1048576 < 17592186044416"
proof -
  have "unat a < 2 ^ 64" using unsigned_less [of a] by simp
  then show ?thesis by simp
qed

text \<open>
  Claim C10. In the status bar, when the available megabytes exceed the total megabytes,
  the unsigned subtraction wraps around modulo \<open>2 ^ 64\<close>: the used figure shown is
  \<open>2 ^ 64 + total - available\<close>, above \<open>2 ^ 64 - 2 ^ 44\<close>. Nothing in either version
  guards against it.
\<close>

theorem C10_used_memory_wraps:
  assumes "unat (mem_Total vm) div 1048576 < unat (mem_Available vm) div 1048576"
  shows "unat (mem_Total vm div megabyteDiv - mem_Available vm div megabyteDiv) =
       2 ^ 64 + unat (mem_Total vm) div 1048576 - unat (mem_Available vm) div 1048576
   \<and> 18446726481523507200 <
       unat (mem_Total vm div megabyteDiv - mem_Available vm div megabyteDiv)
   \<and> DisplayHostMemory_000 (sb\<lparr>mem := Some vm\<rparr>) width =
       Inr (Style_Render (Width width memoryStyle)
         (''Memory: '' @
          decimal (2 ^ 64 + unat (mem_Total vm) div 1048576 - unat (mem_Available vm) div 1048576) @
          '' of '' @ decimal (unat (mem_Total vm) div 1048576) @
          '' MB used ('' @ Sprintf_2f (mem_UsedPercent vm) @ ''%)''))
   \<and> (\<exists>barLine1 width' diskCell.
        Render_001 L W \<lparr>cpu = c, disk = Some d, host = Some h, mem = Some vm\<rparr> =
          Inr (JoinVertical Top
            [barLine1,
             JoinHorizontal Top
               [Style_Render (Width width' memoryStyle)
                  (''Memory used: '' @
                   decimal (2 ^ 64 + unat (mem_Total vm) div 1048576 -
                     unat (mem_Available vm) div 1048576) @
                   '' of '' @ decimal (unat (mem_Total vm) div 1048576) @
                   '' MB ('' @ Sprintf_2f (mem_UsedPercent vm) @ ''% used)''),
                diskCell]]))"
proof -
  have u: "unat (mem_Total vm div megabyteDiv - mem_Available vm div megabyteDiv) =
      2 ^ 64 + unat (mem_Total vm) div 1048576 - unat (mem_Available vm) div 1048576"
    using assms by (simp add: unat_memoryInUse)
  have big: "18446726481523507200 <
       unat (mem_Total vm div megabyteDiv - mem_Available vm div megabyteDiv)"
    using megabytes_bound [of "mem_Available vm"] unfolding u by simp
  have a: "DisplayHostMemory_000 (sb\<lparr>mem := Some vm\<rparr>) width =
       Inr (Style_Render (Width width memoryStyle)
         (''Memory: '' @
          decimal (2 ^ 64 + unat (mem_Total vm) div 1048576 - unat (mem_Available vm) div 1048576) @
          '' of '' @ decimal (unat (mem_Total vm) div 1048576) @
          '' MB used ('' @ Sprintf_2f (mem_UsedPercent vm) @ ''%)''))"
    using DisplayHostMemory_000_present [of "sb\<lparr>mem := Some vm\<rparr>" vm width]
    by (simp add: FormatUint_def unat_div_megabyteDiv u)
  have b: "\<exists>barLine1 width' diskCell.
        Render_001 L W \<lparr>cpu = c, disk = Some d, host = Some h, mem = Some vm\<rparr> =
          Inr (JoinVertical Top
            [barLine1,
             JoinHorizontal Top
               [Style_Render (Width width' memoryStyle)
                  (''Memory used: '' @
                   decimal (2 ^ 64 + unat (mem_Total vm) div 1048576 -
                     unat (mem_Available vm) div 1048576) @
                   '' of '' @ decimal (unat (mem_Total vm) div 1048576) @
                   '' MB ('' @ Sprintf_2f (mem_UsedPercent vm) @ ''% used)''),
                diskCell]])"
  proof -
    from Render_001_second_line [of L W c d h vm] obtain l1 w1 where
      "Render_001 L W \<lparr>cpu = c, disk = Some d, host = Some h, mem = Some vm\<rparr> =
         Inr (JoinVertical Top
           [l1,
            JoinHorizontal Top
              [Style_Render (Width w1 memoryStyle)
                 (''Memory used: '' @
                  FormatUint (mem_Total vm div megabyteDiv - mem_Available vm div megabyteDiv) @
                  '' of '' @ FormatUint (mem_Total vm div megabyteDiv) @
                  '' MB ('' @ Sprintf_2f (mem_UsedPercent vm) @ ''% used)''),
               Style_Render (Align Right diskStyle)
                 (''Disk: '' @ FormatUint (disk_Used d div gigabyteDiv) @ '' of '' @
                  FormatUint (disk_Total d div gigabyteDiv) @
                  '' used ('' @ Sprintf_2f (disk_UsedPercent d) @ '' %)'')]])"
      by blast
    then show ?thesis
      by (simp add: FormatUint_def unat_div_megabyteDiv u)
  qed
  from u big a b show ?thesis by blast
qed

theorem C10_used_memory_wraps_witness:
  "unat (mem_Total \<lparr>mem_Total = 1048576, mem_Available = 2097152,
         mem_UsedPercent = Finite False 0 0\<rparr>) div 1048576
     < unat (mem_Available \<lparr>mem_Total = 1048576, mem_Available = 2097152,
         mem_UsedPercent = Finite False 0 0\<rparr>) div 1048576
   \<and> DisplayHostMemory_000
       (NewStatusBar\<lparr>mem := Some \<lparr>mem_Total = 1048576, mem_Available = 2097152,
         mem_UsedPercent = Finite False 0 0\<rparr>\<rparr>) 60 =
     Inr (Style_Render (Width 60 memoryStyle)
       ''Memory: 18446744073709551615 of 1 MB used ( 0%)'')"
proof -
  let ?vm = "\<lparr>mem_Total = 1048576, mem_Available = 2097152,
         mem_UsedPercent = Finite False 0 0\<rparr>"
  have h: "unat (mem_Total ?vm) div 1048576 < unat (mem_Available ?vm) div 1048576"
    by simp
  have "Sprintf_2f (Finite False 0 0) = '' 0''"
    using Sprintf_2f_zero by (simp add: zero_float64_def)
  with h C10_used_memory_wraps [OF h, where sb = NewStatusBar and width = 60]
  show ?thesis
    by (simp add: decimal.simps digit_def)
qed

section \<open>Absent categories and failed queries\<close>

lemma Render_000_returns: "\<exists>bar. Render_000 L terminalWidth sb = Inr bar"
  using Render_000_layout [of L sb terminalWidth] by blast

lemma Render_000_all_absent:
  "Render_000 L terminalWidth NewStatusBar =
     Inr (JoinVertical Top
       [JoinHorizontal Top
          [Style_Render highlightLeftStyle '' '',
           Style_Render
             (Align Center (Width (terminalWidth
                - lipgloss_Width L (Style_Render highlightLeftStyle '' '')
                - lipgloss_Width L (Style_Render highlightRightStyle [])) generalTextStyle)) '' '',
           Style_Render highlightRightStyle []],
        JoinHorizontal Top
          [Style_Render
             (Width (terminalWidth
                - lipgloss_Width L (Style_Render (Align Right diskStyle) ''Disk: 0 of 0 GB used ( 0%)''))
                memoryStyle) ''Memory: 0 of 0 MB used ( 0%)'',
           Style_Render (Align Right diskStyle) ''Disk: 0 of 0 GB used ( 0%)'']])"
  by (simp add: Render_000_def Let_def andThen_def NewStatusBar_def
      DisplayPlatformInformation_000_absent DisplayCPUInformation_000_absent
      DisplayHostInformation_000_absent DisplayDiskInformation_000_absent
      DisplayHostMemory_000_absent)

text \<open>
  Claim C2 asks that \<open>Render\<close> of the status bar completes whatever categories are absent.
  part_000 does (\<open>Render_000_returns\<close>, and \<open>Render_000_all_absent\<close> for the blank bar).
  part_001 does not: its \<open>Render\<close> reads \<open>sb.host\<close>, \<open>sb.disk\<close> and \<open>sb.mem\<close> with no
  check, so an absent host, disk or memory record is a nil pointer dereference, and a failed
  host query makes the whole program panic. Only the CPU list is guarded there.
\<close>

theorem C2_Render_001_panics_on_absent_record:
  "Render_001 L W \<lparr>cpu = c, disk = dk, host = None, mem = m\<rparr> = Inl NilPointerDereference
   \<and> Render_001 L W \<lparr>cpu = c, disk = None, host = Some h, mem = m\<rparr> = Inl NilPointerDereference
   \<and> Render_001 L W \<lparr>cpu = c, disk = Some d, host = Some h, mem = None\<rparr>
       = Inl NilPointerDereference
   \<and> main_001 L (W\<lparr>host_Info := Inl err\<rparr>) = Inl NilPointerDereference"
proof -
  have a: "Render_001 L W \<lparr>cpu = c, disk = dk, host = None, mem = m\<rparr> = Inl NilPointerDereference"
    by (simp add: Render_001_def Let_def andThen_def deref_def)
  have b: "Render_001 L W \<lparr>cpu = c, disk = None, host = Some h, mem = m\<rparr>
      = Inl NilPointerDereference"
    by (cases c) (simp_all add: Render_001_def Let_def andThen_def deref_def at_def)
  have c: "Render_001 L W \<lparr>cpu = c, disk = Some d, host = Some h, mem = None\<rparr>
      = Inl NilPointerDereference"
    by (cases c) (simp_all add: Render_001_def Let_def andThen_def deref_def at_def)
  have "host (buildStatusBar (W\<lparr>host_Info := Inl err\<rparr>)) = None"
    by (simp add: buildStatusBar_def WithDiskInformation_def WithMemoryInformation_def
        WithCPUInformation_def WithHostInformation_def NewStatusBar_def GetHostInformation_def
        split: sum.split)
  then have d: "main_001 L (W\<lparr>host_Info := Inl err\<rparr>) = Inl NilPointerDereference"
    by (simp add: main_001_def Render_001_def Let_def andThen_def deref_def)
  from a b c d show ?thesis by blast
qed

lemma buildStatusBar_fields:
  "buildStatusBar p =
     \<lparr>cpu = (case cpu_Info p of Inl err \<Rightarrow> [] | Inr c \<Rightarrow> c),
      disk = (case disk_Usage p of Inl err \<Rightarrow> None | Inr d \<Rightarrow> Some d),
      host = (case host_Info p of Inl err \<Rightarrow> None | Inr h \<Rightarrow> Some h),
      mem = (case mem_VirtualMemory p of Inl err \<Rightarrow> None | Inr m \<Rightarrow> Some m)\<rparr>"
  by (simp add: buildStatusBar_def WithDiskInformation_def WithMemoryInformation_def
      WithCPUInformation_def WithHostInformation_def NewStatusBar_def GetHostInformation_def
      GetCPUStat_def GetHostMemory_def GetDiskInformation_def split: sum.split)

lemma main_sections:
  "main p =
     (case host_Info p of Inl err \<Rightarrow> [] | Inr h \<Rightarrow> DisplayHostInformation h) @
     (case cpu_Info p of Inl err \<Rightarrow> [] | Inr c \<Rightarrow> DisplayCPUStat c) @
     (case mem_VirtualMemory p of Inl err \<Rightarrow> [] | Inr m \<Rightarrow> DisplayHostMemory m) @
     (case disk_Usage p of Inl err \<Rightarrow> [] | Inr d \<Rightarrow> DisplayDiskInformation d) @
     (case cpu_Percent p of Inl err \<Rightarrow> [] | Inr ps \<Rightarrow> DisplayCPUPercentage ps)"
  by (simp add: main_def GetHostInformation_def GetCPUStat_def GetHostMemory_def
      GetDiskInformation_def GetCPUPercentage_def split: sum.split)

lemma cells_000_frame:
  "DisplayPlatformInformation_000 L (sb\<lparr>cpu := c, disk := d, mem := m\<rparr>)
     = DisplayPlatformInformation_000 L sb"
  "DisplayHostInformation_000 (sb\<lparr>cpu := c, disk := d, mem := m\<rparr>) width
     = DisplayHostInformation_000 sb width"
  "DisplayCPUInformation_000 (sb\<lparr>disk := d, host := h, mem := m\<rparr>)
     = DisplayCPUInformation_000 sb"
  "DisplayDiskInformation_000 (sb\<lparr>cpu := c, host := h, mem := m\<rparr>)
     = DisplayDiskInformation_000 sb"
  "DisplayHostMemory_000 (sb\<lparr>cpu := c, disk := d, host := h\<rparr>) width
     = DisplayHostMemory_000 sb width"
  by (simp_all add: DisplayPlatformInformation_000_def DisplayHostInformation_000_def
      DisplayCPUInformation_000_def DisplayDiskInformation_000_def DisplayHostMemory_000_def)

text \<open>
  Claim C3. A failed query leaves its field of the snapshot at the zero value (empty list,
  nil record) and every other field is what its own query returned; the snapshot has no
  error component. Each cell of part_000 reads its own category only, its \<open>main\<close> always
  returns a bar, and with every query failing that bar is the blank one. The console
  \<open>main\<close> prints one section per successful query, nothing for a failed one, and nothing
  at all when every query fails.
\<close>

theorem C3_failed_queries_are_isolated:
  "buildStatusBar p =
     \<lparr>cpu = (case cpu_Info p of Inl err \<Rightarrow> [] | Inr c \<Rightarrow> c),
      disk = (case disk_Usage p of Inl err \<Rightarrow> None | Inr d \<Rightarrow> Some d),
      host = (case host_Info p of Inl err \<Rightarrow> None | Inr h \<Rightarrow> Some h),
      mem = (case mem_VirtualMemory p of Inl err \<Rightarrow> None | Inr m \<Rightarrow> Some m)\<rparr>
   \<and> DisplayPlatformInformation_000 L (sb\<lparr>cpu := c', disk := d', mem := m'\<rparr>)
       = DisplayPlatformInformation_000 L sb
   \<and> DisplayHostInformation_000 (sb\<lparr>cpu := c', disk := d', mem := m'\<rparr>) width
       = DisplayHostInformation_000 sb width
   \<and> DisplayCPUInformation_000 (sb\<lparr>disk := d', host := h', mem := m'\<rparr>)
       = DisplayCPUInformation_000 sb
   \<and> DisplayDiskInformation_000 (sb\<lparr>cpu := c', host := h', mem := m'\<rparr>)
       = DisplayDiskInformation_000 sb
   \<and> DisplayHostMemory_000 (sb\<lparr>cpu := c', disk := d', host := h'\<rparr>) width
       = DisplayHostMemory_000 sb width
   \<and> (\<exists>bar. main_000 L W = Inr bar)
   \<and> (\<exists>bar. main_000 L
        \<lparr>host_Info = Inl e1, cpu_Info = Inl e2, mem_VirtualMemory = Inl e3,
         disk_Usage = Inl e4, cpu_Percent = Inl e5,
         term_GetSize_at_load = sizeL, term_GetSize_at_render = sizeR\<rparr> = Inr bar
        \<and> Render_000 L (fst sizeL) NewStatusBar = Inr bar)
   \<and> main p =
       (case host_Info p of Inl err \<Rightarrow> [] | Inr h \<Rightarrow> DisplayHostInformation h) @
       (case cpu_Info p of Inl err \<Rightarrow> [] | Inr c \<Rightarrow> DisplayCPUStat c) @
       (case mem_VirtualMemory p of Inl err \<Rightarrow> [] | Inr m \<Rightarrow> DisplayHostMemory m) @
       (case disk_Usage p of Inl err \<Rightarrow> [] | Inr d \<Rightarrow> DisplayDiskInformation d) @
       (case cpu_Percent p of Inl err \<Rightarrow> [] | Inr ps \<Rightarrow> DisplayCPUPercentage ps)
   \<and> main \<lparr>host_Info = Inl e1, cpu_Info = Inl e2, mem_VirtualMemory = Inl e3,
         disk_Usage = Inl e4, cpu_Percent = Inl e5\<rparr> = []"
proof -
  have completes: "\<exists>bar. main_000 L W = Inr bar"
    using Render_000_returns by (simp add: main_000_def Let_def)
  let ?W = "\<lparr>host_Info = Inl e1, cpu_Info = Inl e2, mem_VirtualMemory = Inl e3,
         disk_Usage = Inl e4, cpu_Percent = Inl e5,
         term_GetSize_at_load = sizeL, term_GetSize_at_render = sizeR\<rparr>"
  have "buildStatusBar ?W = NewStatusBar"
    by (simp add: buildStatusBar_fields NewStatusBar_def)
  then have blank: "main_000 L ?W = Render_000 L (fst sizeL) NewStatusBar"
    by (simp add: main_000_def Let_def)
  obtain bar where bar: "Render_000 L (fst sizeL) NewStatusBar = Inr bar"
    using Render_000_returns by blast
  have all_fail: "\<exists>bar. main_000 L ?W = Inr bar \<and> Render_000 L (fst sizeL) NewStatusBar = Inr bar"
    using blank bar by simp
  have silent: "main \<lparr>host_Info = Inl e1, cpu_Info = Inl e2, mem_VirtualMemory = Inl e3,
         disk_Usage = Inl e4, cpu_Percent = Inl e5\<rparr> = []"
    by (simp add: main_sections)
  show ?thesis
    unfolding cells_000_frame
    using buildStatusBar_fields [of p] completes all_fail main_sections [of p] silent
    by blast
qed

section \<open>Layout widths\<close>

lemma Render_001_layout:
  "\<exists>platformCell cpuCell diskCell hostInformation memoryInformation.
     Render_001 L W \<lparr>cpu = c, disk = Some d, host = Some h, mem = Some vm\<rparr> =
       Inr (JoinVertical Top
         [JoinHorizontal Top
            [platformCell,
             Style_Render
               (Align Center (Width (fst (term_GetSize_at_render W)
                    - lipgloss_Width L platformCell - lipgloss_Width L cpuCell)
                  generalTextStyle)) hostInformation,
             cpuCell],
          JoinHorizontal Top
            [Style_Render
               (Width (fst (term_GetSize_at_render W) - lipgloss_Width L diskCell) memoryStyle)
               memoryInformation,
             diskCell]])"
  by (simp add: Render_001_present Let_def)

text \<open>
  Claim C8. In both status bars the centred host cell of line 1 is given the width
  \<open>terminalWidth - w platformCell - w cpuCell\<close> and the memory cell of line 2 the width
  \<open>terminalWidth - w diskCell\<close>, where \<open>w\<close> is the rendered width of the styled cell. The
  differences are plain integers with no floor at zero: a terminal 20 columns wide and
  cells 12 columns wide give the host cell the width \<open>-4\<close>.
\<close>

theorem C8_cell_widths:
  "(\<exists>platformCell cpuCell diskCell hostInformation memoryInformation.
      DisplayPlatformInformation_000 L sb = Inr platformCell \<and>
      DisplayCPUInformation_000 sb = Inr cpuCell \<and>
      DisplayDiskInformation_000 sb = Inr diskCell \<and>
      Render_000 L terminalWidth sb =
        Inr (JoinVertical Top
          [JoinHorizontal Top
             [platformCell,
              Style_Render
                (Align Center (Width (terminalWidth
                     - lipgloss_Width L platformCell - lipgloss_Width L cpuCell)
                   generalTextStyle)) hostInformation,
              cpuCell],
           JoinHorizontal Top
             [Style_Render (Width (terminalWidth - lipgloss_Width L diskCell) memoryStyle)
                memoryInformation,
              diskCell]]))
   \<and> (\<exists>platformCell cpuCell diskCell hostInformation memoryInformation.
      Render_001 L W \<lparr>cpu = c, disk = Some d, host = Some h, mem = Some vm\<rparr> =
        Inr (JoinVertical Top
          [JoinHorizontal Top
             [platformCell,
              Style_Render
                (Align Center (Width (fst (term_GetSize_at_render W)
                     - lipgloss_Width L platformCell - lipgloss_Width L cpuCell)
                   generalTextStyle)) hostInformation,
              cpuCell],
           JoinHorizontal Top
             [Style_Render
                (Width (fst (term_GetSize_at_render W) - lipgloss_Width L diskCell) memoryStyle)
                memoryInformation,
              diskCell]]))
   \<and> Render_000 \<lparr>lipgloss_Width = (\<lambda>cell. 12), cases_Title = (\<lambda>s. s)\<rparr> 20 NewStatusBar =
       Inr (JoinVertical Top
         [JoinHorizontal Top
            [Style_Render highlightLeftStyle '' '',
             Style_Render (Align Center (Width (- 4) generalTextStyle)) '' '',
             Style_Render highlightRightStyle []],
          JoinHorizontal Top
            [Style_Render (Width 8 memoryStyle) ''Memory: 0 of 0 MB used ( 0%)'',
             Style_Render (Align Right diskStyle) ''Disk: 0 of 0 GB used ( 0%)'']])"
proof -
  have a: "\<exists>platformCell cpuCell diskCell hostInformation memoryInformation.
      DisplayPlatformInformation_000 L sb = Inr platformCell \<and>
      DisplayCPUInformation_000 sb = Inr cpuCell \<and>
      DisplayDiskInformation_000 sb = Inr diskCell \<and>
      Render_000 L terminalWidth sb =
        Inr (JoinVertical Top
          [JoinHorizontal Top
             [platformCell,
              Style_Render
                (Align Center (Width (terminalWidth
                     - lipgloss_Width L platformCell - lipgloss_Width L cpuCell)
                   generalTextStyle)) hostInformation,
              cpuCell],
           JoinHorizontal Top
             [Style_Render (Width (terminalWidth - lipgloss_Width L diskCell) memoryStyle)
                memoryInformation,
              diskCell]])"
    using Render_000_layout [of L sb terminalWidth] by blast
  have c: "Render_000 \<lparr>lipgloss_Width = (\<lambda>cell. 12), cases_Title = (\<lambda>s. s)\<rparr> 20 NewStatusBar =
       Inr (JoinVertical Top
         [JoinHorizontal Top
            [Style_Render highlightLeftStyle '' '',
             Style_Render (Align Center (Width (- 4) generalTextStyle)) '' '',
             Style_Render highlightRightStyle []],
          JoinHorizontal Top
            [Style_Render (Width 8 memoryStyle) ''Memory: 0 of 0 MB used ( 0%)'',
             Style_Render (Align Right diskStyle) ''Disk: 0 of 0 GB used ( 0%)'']])"
    by (simp add: Render_000_all_absent)
  from a Render_001_layout [of L W c d h vm] c show ?thesis by blast
qed

text \<open>
  Claim C9 says the width used by the layout is the terminal's width when \<open>Render\<close> runs.
  part_000 reads the width into a package variable before \<open>main\<close> starts: a terminal that
  is 80 columns wide at load and 120 at render gets the bar laid out for 80 columns.
\<close>

theorem C9_width_read_at_load_counterexample:
  "main_000 \<lparr>lipgloss_Width = (\<lambda>cell. 12), cases_Title = (\<lambda>s. s)\<rparr>
      \<lparr>host_Info = Inl (Error ''down''), cpu_Info = Inl (Error ''down''),
       mem_VirtualMemory = Inl (Error ''down''), disk_Usage = Inl (Error ''down''),
       cpu_Percent = Inl (Error ''down''),
       term_GetSize_at_load = (80, 24, None), term_GetSize_at_render = (120, 24, None)\<rparr> =
     Inr (JoinVertical Top
       [JoinHorizontal Top
          [Style_Render highlightLeftStyle '' '',
           Style_Render (Align Center (Width (80 - 12 - 12) generalTextStyle)) '' '',
           Style_Render highlightRightStyle []],
        JoinHorizontal Top
          [Style_Render (Width (80 - 12) memoryStyle) ''Memory: 0 of 0 MB used ( 0%)'',
           Style_Render (Align Right diskStyle) ''Disk: 0 of 0 GB used ( 0%)'']])
   \<and> main_000 \<lparr>lipgloss_Width = (\<lambda>cell. 12), cases_Title = (\<lambda>s. s)\<rparr>
      \<lparr>host_Info = Inl (Error ''down''), cpu_Info = Inl (Error ''down''),
       mem_VirtualMemory = Inl (Error ''down''), disk_Usage = Inl (Error ''down''),
       cpu_Percent = Inl (Error ''down''),
       term_GetSize_at_load = (80, 24, None), term_GetSize_at_render = (120, 24, None)\<rparr> \<noteq>
     Inr (JoinVertical Top
       [JoinHorizontal Top
          [Style_Render highlightLeftStyle '' '',
           Style_Render (Align Center (Width (120 - 12 - 12) generalTextStyle)) '' '',
           Style_Render highlightRightStyle []],
        JoinHorizontal Top
          [Style_Render (Width (120 - 12) memoryStyle) ''Memory: 0 of 0 MB used ( 0%)'',
           Style_Render (Align Right diskStyle) ''Disk: 0 of 0 GB used ( 0%)'']])"
  by (simp add: main_000_def Let_def buildStatusBar_fields Render_000_all_absent
      flip: NewStatusBar_def)

text \<open>
  Claim C9, amended. part_001 queries the terminal inside \<open>Render\<close>: the width entering
  both subtractions is the width at render time, and the width at load is never read.
  part_000 reads the width once, when the package variables are initialised: \<open>Render\<close>
  subtracts from that stored value, and the width at render time is never read.
\<close>

theorem C9_where_the_width_is_read:
  "(\<exists>platformCell cpuCell diskCell hostInformation memoryInformation.
      main_001 L
        \<lparr>host_Info = Inr h, cpu_Info = qc, mem_VirtualMemory = Inr vm, disk_Usage = Inr d,
         cpu_Percent = qp,
         term_GetSize_at_load = sizeL, term_GetSize_at_render = (atRender, rows, err)\<rparr> =
        Inr (JoinVertical Top
          [JoinHorizontal Top
             [platformCell,
              Style_Render
                (Align Center (Width (atRender
                     - lipgloss_Width L platformCell - lipgloss_Width L cpuCell)
                   generalTextStyle)) hostInformation,
              cpuCell],
           JoinHorizontal Top
             [Style_Render (Width (atRender - lipgloss_Width L diskCell) memoryStyle)
                memoryInformation,
              diskCell]]))
   \<and> main_001 L (W\<lparr>term_GetSize_at_load := x\<rparr>) = main_001 L W
   \<and> (\<exists>platformCell cpuCell diskCell hostInformation memoryInformation.
      main_000 L
        \<lparr>host_Info = qh, cpu_Info = qc, mem_VirtualMemory = qm, disk_Usage = qd,
         cpu_Percent = qp,
         term_GetSize_at_load = (atLoad, rows, err), term_GetSize_at_render = sizeR\<rparr> =
        Inr (JoinVertical Top
          [JoinHorizontal Top
             [platformCell,
              Style_Render
                (Align Center (Width (atLoad
                     - lipgloss_Width L platformCell - lipgloss_Width L cpuCell)
                   generalTextStyle)) hostInformation,
              cpuCell],
           JoinHorizontal Top
             [Style_Render (Width (atLoad - lipgloss_Width L diskCell) memoryStyle)
                memoryInformation,
              diskCell]]))
   \<and> main_000 L (W\<lparr>term_GetSize_at_render := x\<rparr>) = main_000 L W"
proof -
  let ?W1 = "\<lparr>host_Info = Inr h, cpu_Info = qc, mem_VirtualMemory = Inr vm, disk_Usage = Inr d,
         cpu_Percent = qp,
         term_GetSize_at_load = sizeL, term_GetSize_at_render = (atRender, rows, err)\<rparr>"
  have "main_001 L ?W1 =
      Render_001 L ?W1 \<lparr>cpu = (case qc of Inl err \<Rightarrow> [] | Inr c \<Rightarrow> c), disk = Some d,
        host = Some h, mem = Some vm\<rparr>"
    by (simp add: main_001_def Let_def buildStatusBar_fields)
  with Render_001_layout [of L ?W1 "case qc of Inl err \<Rightarrow> [] | Inr c \<Rightarrow> c" d h vm]
  have a: "\<exists>platformCell cpuCell diskCell hostInformation memoryInformation.
      main_001 L ?W1 =
        Inr (JoinVertical Top
          [JoinHorizontal Top
             [platformCell,
              Style_Render
                (Align Center (Width (atRender
                     - lipgloss_Width L platformCell - lipgloss_Width L cpuCell)
                   generalTextStyle)) hostInformation,
              cpuCell],
           JoinHorizontal Top
             [Style_Render (Width (atRender - lipgloss_Width L diskCell) memoryStyle)
                memoryInformation,
              diskCell]])"
    by simp
  have b: "main_001 L (W\<lparr>term_GetSize_at_load := x\<rparr>) = main_001 L W"
    by (simp add: main_001_def Let_def buildStatusBar_fields Render_001_def)
  let ?W0 = "\<lparr>host_Info = qh, cpu_Info = qc, mem_VirtualMemory = qm, disk_Usage = qd,
         cpu_Percent = qp,
         term_GetSize_at_load = (atLoad, rows, err), term_GetSize_at_render = sizeR\<rparr>"
  have "main_000 L ?W0 = Render_000 L atLoad (buildStatusBar ?W0)"
    by (simp add: main_000_def Let_def)
  with Render_000_layout [of L "buildStatusBar ?W0" atLoad]
  have c: "\<exists>platformCell cpuCell diskCell hostInformation memoryInformation.
      main_000 L ?W0 =
        Inr (JoinVertical Top
          [JoinHorizontal Top
             [platformCell,
              Style_Render
                (Align Center (Width (atLoad
                     - lipgloss_Width L platformCell - lipgloss_Width L cpuCell)
                   generalTextStyle)) hostInformation,
              cpuCell],
           JoinHorizontal Top
             [Style_Render (Width (atLoad - lipgloss_Width L diskCell) memoryStyle)
                memoryInformation,
              diskCell]])"
    by auto
  have d: "main_000 L (W\<lparr>term_GetSize_at_render := x\<rparr>) = main_000 L W"
    by (simp add: main_000_def Let_def buildStatusBar_fields)
  from a b c d show ?thesis by blast
qed

section \<open>The console scenario\<close>

lemma roundHalfEven_whole: "roundHalfEven a (Suc 0) = a"
  by (simp add: roundHalfEven_def)

lemma decimal_examples:
  "decimal 0 = ''0''"
  "decimal 50 = ''50''"
  "decimal 75 = ''75''"
  "decimal 100 = ''100''"
  "decimal 2048 = ''2048''"
  "decimal 3200 = ''3200''"
  "decimal 8192 = ''8192''"
  by (simp_all add: decimal.simps digit_def)

lemma FormatFloat_whole_examples:
  "FormatFloat (Finite False 3200 0) 2 = ''3200.00''"
  "FormatFloat (Finite False 75 0) 2 = ''75.00''"
  "FormatFloat (Finite False 50 0) 2 = ''50.00''"
  by (simp_all add: fixedDigits_def roundHalfEven_whole zeroPad_def decimal_examples)

lemma scenario_prefix:
  "main (scenario free percentage) =
     ''Hostname: box1'' @ newline @
     ''Operating System: ubuntu 22.04 (x86_64)'' @ newline @
     ''Model Name: Gen9 Family:  Speed: 3200.00 MHz'' @ newline @
     ''Total memory: 8192 MB'' @ newline @
     ''Free memory: 2048 MB'' @ newline @
     ''Percentage used memory: 75.00 %'' @ newline @
     ''Total disk space: 100 GB'' @ newline @
     ''Used disk space: 50 GB'' @ newline @
     ''Free disk space: '' @ decimal (unat free div 1073741824) @ '' GB'' @ newline @
     ''Percentage disk space usage: 50.00 %'' @ newline @
     (case percentage of Inl err \<Rightarrow> [] | Inr ps \<Rightarrow> DisplayCPUPercentage ps)"
  by (simp add: main_sections scenario_def DisplayHostInformation_def DisplayCPUStat_def
      DisplayHostMemory_text DisplayDiskInformation_text FormatFloat_whole_examples
      decimal_examples del: FormatFloat.simps)

text \<open>
  Claim C6 expects the line \<open>Free disk space: 50 GB\<close> from a disk record that gives total,
  used and used-percent only. The printer does not derive the free space: it prints the
  record's own free bytes. With that field at its zero value the line reads \<open>0 GB\<close>.
\<close>

theorem C6_scenario_counterexample:
  "''Free disk space: 50 GB'' \<notin> set (splitLines (main (scenario 0 (Inl (Error ''down'')))))
   \<and> splitLines (main (scenario 0 (Inl (Error ''down'')))) =
      [''Hostname: box1'',
       ''Operating System: ubuntu 22.04 (x86_64)'',
       ''Model Name: Gen9 Family:  Speed: 3200.00 MHz'',
       ''Total memory: 8192 MB'',
       ''Free memory: 2048 MB'',
       ''Percentage used memory: 75.00 %'',
       ''Total disk space: 100 GB'',
       ''Used disk space: 50 GB'',
       ''Free disk space: 0 GB'',
       ''Percentage disk space usage: 50.00 %'']"
  by (simp add: scenario_prefix decimal_examples)

text \<open>
  Claim C6, amended. For the scenario's snapshot with 53687091200 free bytes in the disk
  record, the console output is exactly the ten lines of the scenario, in that order,
  followed by the per-core section when the per-core query succeeds.
\<close>

theorem C6_scenario_with_free_space:
  "main (scenario 53687091200 percentage) =
     ''Hostname: box1'' @ newline @
     ''Operating System: ubuntu 22.04 (x86_64)'' @ newline @
     ''Model Name: Gen9 Family:  Speed: 3200.00 MHz'' @ newline @
     ''Total memory: 8192 MB'' @ newline @
     ''Free memory: 2048 MB'' @ newline @
     ''Percentage used memory: 75.00 %'' @ newline @
     ''Total disk space: 100 GB'' @ newline @
     ''Used disk space: 50 GB'' @ newline @
     ''Free disk space: 50 GB'' @ newline @
     ''Percentage disk space usage: 50.00 %'' @ newline @
     (case percentage of Inl err \<Rightarrow> [] | Inr ps \<Rightarrow> DisplayCPUPercentage ps)
   \<and> splitLines (main (scenario 53687091200 (Inl err))) =
      [''Hostname: box1'',
       ''Operating System: ubuntu 22.04 (x86_64)'',
       ''Model Name: Gen9 Family:  Speed: 3200.00 MHz'',
       ''Total memory: 8192 MB'',
       ''Free memory: 2048 MB'',
       ''Percentage used memory: 75.00 %'',
       ''Total disk space: 100 GB'',
       ''Used disk space: 50 GB'',
       ''Free disk space: 50 GB'',
       ''Percentage disk space usage: 50.00 %'']"
  by (simp add: scenario_prefix decimal_examples)

section \<open>Formatting of percentages\<close>

lemma roundHalfEven_nearest:
  assumes "0 < b"
  shows "\<bar>2 * (int (roundHalfEven a b) * int b - int a)\<bar> \<le> int b"
proof -
  define q where "q = a div b"
  define r where "r = a mod b"
  have a: "int a = int q * int b + int r"
    unfolding q_def r_def by (metis div_mult_mod_eq of_nat_add of_nat_mult)
  have r: "int r < int b"
    unfolding r_def using assms by simp
  have up: "(int q + 1) * int b - int a = int b - int r"
    unfolding a by (simp add: algebra_simps)
  have down: "int q * int b - int a = - int r"
    unfolding a by simp
  consider (low) "2 * r < b" | (high) "b < 2 * r" | (tie) "2 * r = b"
    by linarith
  then show ?thesis
  proof cases
    case low
    then have "int (roundHalfEven a b) = int q"
      by (simp add: roundHalfEven_def q_def r_def Let_def)
    then have eq: "2 * (int (roundHalfEven a b) * int b - int a) = - (2 * int r)"
      using down by simp
    from low have "2 * int r < int b" by linarith
    then have "\<bar>- (2 * int r)\<bar> \<le> int b" by (simp add: abs_le_iff)
    then show ?thesis by (simp only: eq)
  next
    case high
    then have "int (roundHalfEven a b) = int q + 1"
      by (simp add: roundHalfEven_def q_def r_def Let_def)
    then have eq: "2 * (int (roundHalfEven a b) * int b - int a) = 2 * (int b - int r)"
      using up by simp
    from high have "int b < 2 * int r" by linarith
    with r have "\<bar>2 * (int b - int r)\<bar> \<le> int b" by (simp add: abs_le_iff)
    then show ?thesis by (simp only: eq)
  next
    case tie
    then have "int (roundHalfEven a b) = int q \<or> int (roundHalfEven a b) = int q + 1"
      by (simp add: roundHalfEven_def q_def r_def Let_def)
    then have eq: "2 * (int (roundHalfEven a b) * int b - int a) = - (2 * int r)
        \<or> 2 * (int (roundHalfEven a b) * int b - int a) = 2 * (int b - int r)"
      using up down by auto
    from tie have t: "2 * int r = int b" by linarith
    then have "\<bar>- (2 * int r)\<bar> \<le> int b" and "\<bar>2 * (int b - int r)\<bar> \<le> int b"
      by (simp_all add: abs_le_iff)
    with eq show ?thesis by (elim disjE) (simp_all only:)
  qed
qed

lemma decimal_below_ten: "k < 10 \<Longrightarrow> decimal k = [digit k]"
  by (simp add: decimal.simps)

lemma zeroPad_two:
  assumes "k < 100"
  shows "zeroPad 2 (decimal k) = [digit (k div 10), digit (k mod 10)]"
proof (cases "k < 10")
  case True
  then show ?thesis
    by (simp add: decimal_below_ten zeroPad_def digit_def)
next
  case False
  with assms have "k div 10 < 10" by simp
  with False show ?thesis
    by (simp add: decimal.simps [of k] decimal_below_ten zeroPad_def)
qed

lemma FormatFloat_two_decimals:
  "FormatFloat (Finite False m e) 2 =
     decimal (roundHalfEven (m * 100) (2 ^ e) div 100) @ ''.'' @
     [digit (roundHalfEven (m * 100) (2 ^ e) mod 100 div 10),
      digit (roundHalfEven (m * 100) (2 ^ e) mod 10)]"
proof -
  have "roundHalfEven (m * 100) (2 ^ e) mod 100 < 100" by simp
  from zeroPad_two [OF this] show ?thesis
    by (simp add: fixedDigits_def Let_def mod_mod_cancel)
qed

lemma Sprintf_2f_no_decimals:
  "Sprintf_2f (Finite False m e) = padLeft 2 (decimal (roundHalfEven m (2 ^ e)))"
  by (simp add: Sprintf_2f_def fixedDigits_def)

lemma FormatFloat_87_456:
  "FormatFloat (Finite False 6154168890801783 46) 2 = ''87.46''"
  by (simp add: FormatFloat_two_decimals roundHalfEven_def decimal.simps digit_def
      del: FormatFloat.simps)

lemma Sprintf_2f_87_456:
  "Sprintf_2f (Finite False 6154168890801783 46) = ''87''"
  by (simp add: Sprintf_2f_no_decimals roundHalfEven_def decimal.simps digit_def padLeft_def)

lemma Sprintf_2f_87_5:
  "Sprintf_2f (Finite False 175 1) = ''88''"
  by (simp add: Sprintf_2f_no_decimals roundHalfEven_def decimal.simps digit_def padLeft_def)

text \<open>
  Claim C7. A percentage is printed with no decimals in the status bar (\<open>%2.f\<close>) and with
  exactly two decimals in the console lines (\<open>FormatFloat\<close> with precision 2). Both round to
  the nearest printable value instead of truncating: the number printed differs from the
  exact value by at most half a unit of its last place. The double nearest to 87.456 prints
  as \<open>87\<close> in the bar and as \<open>87.46\<close> on the console, and 87.5 prints as \<open>88\<close> in the bar.
  Stated for the finite, non-negative values a percentage takes.
\<close>

theorem C7_percent_rounding:
  "FormatFloat (Finite False m e) 2 =
     decimal (roundHalfEven (m * 100) (2 ^ e) div 100) @ ''.'' @
     [digit (roundHalfEven (m * 100) (2 ^ e) mod 100 div 10),
      digit (roundHalfEven (m * 100) (2 ^ e) mod 10)]
   \<and> \<bar>2 * (int (roundHalfEven (m * 100) (2 ^ e)) * 2 ^ e - int m * 100)\<bar> \<le> 2 ^ e
   \<and> Sprintf_2f (Finite False m e) = padLeft 2 (decimal (roundHalfEven m (2 ^ e)))
   \<and> \<bar>2 * (int (roundHalfEven m (2 ^ e)) * 2 ^ e - int m)\<bar> \<le> 2 ^ e
   \<and> DisplayHostMemory \<lparr>mem_Total = t, mem_Available = a, mem_UsedPercent = Finite False m e\<rparr> =
       ''Total memory: '' @ decimal (unat t div 1048576) @ '' MB'' @ newline @
       ''Free memory: '' @ decimal (unat a div 1048576) @ '' MB'' @ newline @
       ''Percentage used memory: '' @ FormatFloat (Finite False m e) 2 @ '' %'' @ newline
   \<and> DisplayHostMemory_000
       (sb\<lparr>mem := Some \<lparr>mem_Total = t, mem_Available = a, mem_UsedPercent = Finite False m e\<rparr>\<rparr>)
       width =
       Inr (Style_Render (Width width memoryStyle)
         (''Memory: '' @ FormatUint (t div megabyteDiv - a div megabyteDiv) @
          '' of '' @ FormatUint (t div megabyteDiv) @
          '' MB used ('' @ Sprintf_2f (Finite False m e) @ ''%)''))
   \<and> FormatFloat (Finite False 6154168890801783 46) 2 = ''87.46''
   \<and> Sprintf_2f (Finite False 6154168890801783 46) = ''87''
   \<and> Sprintf_2f (Finite False 175 1) = ''88''"
proof -
  have p: "(0::nat) < 2 ^ e" by simp
  have n2: "\<bar>2 * (int (roundHalfEven (m * 100) (2 ^ e)) * 2 ^ e - int m * 100)\<bar> \<le> 2 ^ e"
    using roundHalfEven_nearest [OF p, of "m * 100"] by simp
  have n0: "\<bar>2 * (int (roundHalfEven m (2 ^ e)) * 2 ^ e - int m)\<bar> \<le> 2 ^ e"
    using roundHalfEven_nearest [OF p, of m] by simp
  have console: "DisplayHostMemory
       \<lparr>mem_Total = t, mem_Available = a, mem_UsedPercent = Finite False m e\<rparr> =
       ''Total memory: '' @ decimal (unat t div 1048576) @ '' MB'' @ newline @
       ''Free memory: '' @ decimal (unat a div 1048576) @ '' MB'' @ newline @
       ''Percentage used memory: '' @ FormatFloat (Finite False m e) 2 @ '' %'' @ newline"
    by (simp add: DisplayHostMemory_text del: FormatFloat.simps)
  have bar: "DisplayHostMemory_000
       (sb\<lparr>mem := Some \<lparr>mem_Total = t, mem_Available = a, mem_UsedPercent = Finite False m e\<rparr>\<rparr>)
       width =
       Inr (Style_Render (Width width memoryStyle)
         (''Memory: '' @ FormatUint (t div megabyteDiv - a div megabyteDiv) @
          '' of '' @ FormatUint (t div megabyteDiv) @
          '' MB used ('' @ Sprintf_2f (Finite False m e) @ ''%)''))"
    by (simp add: DisplayHostMemory_000_present)
  from FormatFloat_two_decimals [of m e] n2 Sprintf_2f_no_decimals [of m e] n0 console bar
    FormatFloat_87_456 Sprintf_2f_87_456 Sprintf_2f_87_5
  show ?thesis by blast
qed

end
